theory Spec2Isabelle
  imports Complex_Main "HOL-Library.AList" "HOL-Library.Multiset"
begin

section \<open>Conventions of the embedding\<close>

text \<open>
  Python floats are modelled as the real numbers they approximate: every sum, product,
  quotient and comparison of the source is the exact one. A pandas cell is a
  \<open>real option\<close>, with \<open>None\<close> for NaN. A Python dictionary whose keys may be absent is a
  record with optional fields (\<open>None\<close> is "key not in dict") or a map. An exception that a
  function raises is the \<open>Inl\<close> branch of its result.
\<close>

datatype py_error =
    ZeroDivisionError
  | KeyError string
  | AttributeError string
  | IndexError
  | ValueError string
  | Exception string
  | KeyboardInterrupt
  | SystemExit

text \<open>
  \<open>except Exception\<close> catches every error above except the two that derive from
  \<open>BaseException\<close> only.
\<close>

fun caught_by_Exception :: "py_error \<Rightarrow> bool" where
  "caught_by_Exception KeyboardInterrupt = False"
| "caught_by_Exception SystemExit = False"
| "caught_by_Exception _ = True"

section \<open>config.py\<close>

text \<open>The attributes of \<open>Config\<close> that the modelled code reads.\<close>

record config =
  SYMBOL :: string
  MAX_POSITION_SIZE :: real
  RISK_PER_TRADE :: real
  MAX_OPEN_TRADES :: int
  USE_STOP_LOSS :: bool
  STOP_LOSS_PCT :: real
  TAKE_PROFIT_PCT :: real
  USE_TRAILING_STOP :: bool
  TRAILING_STOP_PCT :: real
  tenkan_period :: nat
  kijun_period :: nat
  senkou_span_b_period :: nat
  displacement :: nat
  lookback_period :: int

text \<open>The values \<open>Config.__init__\<close> assigns.\<close>

definition default_config :: config where
  "default_config =
     \<lparr>SYMBOL = ''BTCUSDT'', MAX_POSITION_SIZE = 1 / 100, RISK_PER_TRADE = 1 / 100,
      MAX_OPEN_TRADES = 3, USE_STOP_LOSS = True, STOP_LOSS_PCT = 2 / 100,
      TAKE_PROFIT_PCT = 4 / 100, USE_TRAILING_STOP = True, TRAILING_STOP_PCT = 1 / 100,
      tenkan_period = 9, kijun_period = 26, senkou_span_b_period = 52, displacement = 26,
      lookback_period = 1\<rparr>"

section \<open>Signals, balances and the exchange connection\<close>

text \<open>
  A signal is a dictionary. \<open>symbol\<close>, \<open>side\<close> and \<open>quantity\<close> are read with
  \<open>signal[...]\<close> by every consumer and are always present; the other keys may be absent.
  Open trades and open positions are dictionaries of the same shape.
\<close>

record signal =
  strategy :: string
  symbol :: string
  side :: string
  price :: "real option"
  quantity :: real
  stop_loss :: "real option"
  take_profit :: "real option"
  timestamp :: nat
  confidence :: "real option"

record balance =
  free :: real
  locked :: real
  total :: real

record order =
  orderId :: int
  order_symbol :: string

text \<open>
  What the two calls that \<open>update_account_state\<close> makes on the connection answer at
  the moment of the call: a value, or the exception the request raises.
\<close>

record connection =
  get_account_balance :: "py_error + (string \<rightharpoonup> balance)"
  get_open_orders :: "py_error + order list"

section \<open>risk\_manager.py\<close>

text \<open>
  The attributes of a \<open>RiskManager\<close>. \<open>balances\<close>, \<open>open_orders\<close> and
  \<open>total_exposure\<close> are assigned by \<open>update_account_state\<close> only; \<open>None\<close> is an
  attribute that no call has assigned yet, whose read raises \<open>AttributeError\<close>.
\<close>

record risk_manager =
  open_positions :: "(string \<times> signal) list"
  balances :: "(string \<rightharpoonup> balance) option"
  open_orders :: "(int \<rightharpoonup> order) option"
  total_exposure :: "real option"

text \<open>\<open>symbol[:-4]\<close> and \<open>symbol[-4:]\<close>.\<close>

definition base_currency :: "string \<Rightarrow> string" where
  "base_currency s = take (length s - 4) s"

definition quote_currency :: "string \<Rightarrow> string" where
  "quote_currency s = drop (length s - 4) s"

definition calculate_exposure :: "config \<Rightarrow> risk_manager \<Rightarrow> risk_manager" where
  "calculate_exposure cfg rm =
     (case balances rm of
        None \<Rightarrow> rm\<lparr>total_exposure := Some 0\<rparr>
      | Some b \<Rightarrow>
          (case b (base_currency (SYMBOL cfg)) of
             None \<Rightarrow> rm\<lparr>total_exposure := Some 0\<rparr>
           | Some bal \<Rightarrow> rm\<lparr>total_exposure := Some (0 + total bal * 1)\<rparr>))"

text \<open>The handler of \<open>update_account_state\<close>: log and go on, for what it catches.\<close>

definition log_error :: "py_error \<Rightarrow> 'a \<Rightarrow> py_error + 'a" where
  "log_error e s = (if caught_by_Exception e then Inr s else Inl e)"

definition update_account_state ::
  "config \<Rightarrow> connection \<Rightarrow> risk_manager \<Rightarrow> py_error + risk_manager" where
  "update_account_state cfg conn rm =
     (case get_account_balance conn of
        Inl e \<Rightarrow> log_error e rm
      | Inr b \<Rightarrow>
          (let rm1 = rm\<lparr>balances := Some b\<rparr> in
           case get_open_orders conn of
             Inl e \<Rightarrow> log_error e rm1
           | Inr os \<Rightarrow>
               Inr (calculate_exposure cfg
                      (rm1\<lparr>open_orders := Some (map_of (map (\<lambda>order. (orderId order, order)) (rev os)))\<rparr>))))"

definition get_account_value :: "config \<Rightarrow> risk_manager \<Rightarrow> py_error + real" where
  "get_account_value cfg rm =
     (case balances rm of
        None \<Rightarrow> Inl (AttributeError ''balances'')
      | Some b \<Rightarrow>
          (case b (quote_currency (SYMBOL cfg)) of
             Some bal \<Rightarrow> Inr (total bal)
           | None \<Rightarrow> Inr 10000))"

definition calculate_max_position_size ::
  "config \<Rightarrow> risk_manager \<Rightarrow> string \<Rightarrow> real \<Rightarrow> py_error + real" where
  "calculate_max_position_size cfg rm symbol_name p =
     (case get_account_value cfg rm of
        Inl e \<Rightarrow> Inl e
      | Inr account_value \<Rightarrow>
          (let risk_amount = account_value * RISK_PER_TRADE cfg in
           if p = 0 then Inl ZeroDivisionError
           else
             (let max_position_from_risk = risk_amount / p;
                  max_position_from_config = MAX_POSITION_SIZE cfg
              in Inr (min max_position_from_risk max_position_from_config))))"

text \<open>The position the manager holds on the signal's symbol is in the other direction.\<close>

definition opposite_position :: "risk_manager \<Rightarrow> signal \<Rightarrow> bool" where
  "opposite_position rm sig =
     (case map_of (open_positions rm) (symbol sig) of
        None \<Rightarrow> False
      | Some current_position \<Rightarrow>
          (side sig = ''BUY'' \<and> side current_position = ''SELL'') \<or>
          (side sig = ''SELL'' \<and> side current_position = ''BUY''))"

text \<open>Lines 85 to 91: the quantity is clamped in the signal itself.\<close>

definition clamp_quantity :: "real \<Rightarrow> signal \<Rightarrow> signal" where
  "clamp_quantity max_position_size sig =
     (if quantity sig > max_position_size then sig\<lparr>quantity := max_position_size\<rparr> else sig)"

text \<open>Lines 99 to 111: stop-loss and take-profit are written into the signal.\<close>

definition add_stop_loss :: "config \<Rightarrow> real \<Rightarrow> signal \<Rightarrow> signal" where
  "add_stop_loss cfg p sig =
     (if USE_STOP_LOSS cfg \<and> stop_loss sig = None
      then (if side sig = ''BUY''
            then sig\<lparr>stop_loss := Some (p * (1 - STOP_LOSS_PCT cfg))\<rparr>
            else sig\<lparr>stop_loss := Some (p * (1 + STOP_LOSS_PCT cfg))\<rparr>)
      else sig)"

definition add_take_profit :: "config \<Rightarrow> real \<Rightarrow> signal \<Rightarrow> signal" where
  "add_take_profit cfg p sig =
     (if take_profit sig = None
      then (if side sig = ''BUY''
            then sig\<lparr>take_profit := Some (p * (1 + TAKE_PROFIT_PCT cfg))\<rparr>
            else sig\<lparr>take_profit := Some (p * (1 - TAKE_PROFIT_PCT cfg))\<rparr>)
      else sig)"

definition min_position_size :: real where
  "min_position_size = 1 / 100000"

text \<open>
  \<open>validate_trade\<close> answers the verdict together with the signal as the call leaves it
  (the caller's dictionary is mutated in place) and the manager's refreshed state.
\<close>

definition validate_trade ::
  "config \<Rightarrow> connection \<Rightarrow> risk_manager \<Rightarrow> signal \<Rightarrow> py_error + (bool \<times> signal \<times> risk_manager)" where
  "validate_trade cfg conn rm0 sig =
     (case update_account_state cfg conn rm0 of
        Inl e \<Rightarrow> Inl e
      | Inr rm \<Rightarrow>
          (let p = (case price sig of None \<Rightarrow> 0 | Some v \<Rightarrow> v) in
           if int (length (open_positions rm)) \<ge> MAX_OPEN_TRADES cfg then Inr (False, sig, rm)
           else if opposite_position rm sig then Inr (False, sig, rm)
           else
             (case calculate_max_position_size cfg rm (symbol sig) p of
                Inl e \<Rightarrow> Inl e
              | Inr max_position_size \<Rightarrow>
                  (let sig1 = clamp_quantity max_position_size sig in
                   if quantity sig1 < min_position_size then Inr (False, sig1, rm)
                   else
                     (let sig2 = add_take_profit cfg p (add_stop_loss cfg p sig1);
                          trade_value = quantity sig1 * p
                      in case total_exposure rm of
                           None \<Rightarrow> Inl (AttributeError ''total_exposure'')
                         | Some exposure \<Rightarrow>
                             (case get_account_value cfg rm of
                                Inl e \<Rightarrow> Inl e
                              | Inr account_value \<Rightarrow>
                                  if exposure + trade_value > account_value * (9 / 10)
                                  then Inr (False, sig2, rm)
                                  else Inr (True, sig2, rm)))))))"

text \<open>\<open>get_current_price\<close> is the placeholder of the source.\<close>

definition get_current_price :: "string \<Rightarrow> real" where
  "get_current_price symbol_name = 50000"

text \<open>
  The body of the loop of \<open>adjust_stops\<close> for one trade, at the current price
  \<open>current_price\<close>. A trade without \<open>price\<close> or \<open>stop_loss\<close> raises \<open>KeyError\<close>, which the
  \<open>try\<close> around the body catches: the trade stays as it is.
\<close>

definition adjust_trade :: "config \<Rightarrow> real \<Rightarrow> signal \<Rightarrow> signal" where
  "adjust_trade cfg current_price trade =
     (case price trade of
        None \<Rightarrow> trade
      | Some entry_price \<Rightarrow>
          (if side trade = ''BUY''
           then (let new_stop = current_price * (1 - TRAILING_STOP_PCT cfg) in
                 case stop_loss trade of
                   None \<Rightarrow> trade
                 | Some old_stop \<Rightarrow>
                     if new_stop > old_stop then trade\<lparr>stop_loss := Some new_stop\<rparr> else trade)
           else (let new_stop = current_price * (1 + TRAILING_STOP_PCT cfg) in
                 case stop_loss trade of
                   None \<Rightarrow> trade
                 | Some old_stop \<Rightarrow>
                     if new_stop < old_stop then trade\<lparr>stop_loss := Some new_stop\<rparr> else trade)))"

text \<open>
  \<open>adjust_stops_at\<close> is \<open>adjust_stops\<close> with the price source as a parameter;
  \<open>adjust_stops\<close> itself reads the placeholder.
\<close>

definition adjust_stops_at ::
  "(string \<Rightarrow> real) \<Rightarrow> config \<Rightarrow> ('id \<times> signal) list \<Rightarrow> ('id \<times> signal) list" where
  "adjust_stops_at current cfg open_trades =
     (if \<not> USE_TRAILING_STOP cfg then open_trades
      else map (\<lambda>(trade_id, trade). (trade_id, adjust_trade cfg (current (symbol trade)) trade))
             open_trades)"

definition adjust_stops :: "config \<Rightarrow> ('id \<times> signal) list \<Rightarrow> ('id \<times> signal) list" where
  "adjust_stops cfg open_trades = adjust_stops_at get_current_price cfg open_trades"

text \<open>
  A run of calls of \<open>adjust_stops\<close>, one per cycle, each with the configuration and the
  market prices of its cycle.
\<close>

fun adjust_stops_run ::
  "(config \<times> (string \<Rightarrow> real)) list \<Rightarrow> ('id \<times> signal) list \<Rightarrow> ('id \<times> signal) list" where
  "adjust_stops_run [] open_trades = open_trades"
| "adjust_stops_run ((cfg, current) # cycles) open_trades =
     adjust_stops_run cycles (adjust_stops_at current cfg open_trades)"

section \<open>utils.py\<close>

text \<open>\<open>str.upper\<close> on ASCII text.\<close>

definition upper_char :: "char \<Rightarrow> char" where
  "upper_char c =
     (let n = (of_char c :: nat) in if 97 \<le> n \<and> n \<le> 122 then char_of (n - 32) else c)"

definition upper :: "string \<Rightarrow> string" where
  "upper s = map upper_char s"

definition calculate_risk_reward_ratio :: "real \<Rightarrow> real \<Rightarrow> real \<Rightarrow> string \<Rightarrow> real" where
  "calculate_risk_reward_ratio entry stop target trade_side =
     (let (risk, reward) =
            (if upper trade_side = ''BUY''
             then (\<bar>entry - stop\<bar>, \<bar>target - entry\<bar>)
             else (\<bar>stop - entry\<bar>, \<bar>entry - target\<bar>))
      in if risk = 0 then 0 else reward / risk)"

section \<open>Frames of candles\<close>

text \<open>
  A pandas \<open>DataFrame\<close>: the name of its index, the labels of the index, one per
  row, and the columns in their order, each a list of cells, one per row. A cell is a
  number or NaN (\<open>None\<close>). \<open>_klines_to_dataframe\<close> builds frames whose index is named
  \<open>open_time\<close> and holds the opening times of the candles (milliseconds since the
  epoch). \<open>pd.DataFrame()\<close> is the frame with no row and no column; its index has no
  name.
\<close>

type_synonym cell = "real option"

record frame =
  index_name :: "string option"
  index_labels :: "nat list"
  columns :: "(string \<times> cell list) list"

definition empty_frame :: frame where
  "empty_frame = \<lparr>index_name = None, index_labels = [], columns = []\<rparr>"

section \<open>strategy\_manager.py\<close>

text \<open>
  A loaded strategy is its \<open>generate_signals\<close> method: from the frame to the signals
  it returns or the exception it raises. \<open>strategies\<close> is the dictionary of the loaded
  strategies, \<open>enabled_strategies\<close> the list of the enabled names.
\<close>

type_synonym strategy_method = "frame \<Rightarrow> py_error + signal list"

record strategy_manager =
  strategies :: "string \<rightharpoonup> strategy_method"
  enabled_strategies :: "string list"

text \<open>
  The loop of \<open>generate_signals\<close>, with \<open>all_signals\<close> as accumulator. \<open>except
  Exception\<close> lets \<open>KeyboardInterrupt\<close> and \<open>SystemExit\<close> through.
\<close>

fun collect_signals ::
  "(string \<rightharpoonup> strategy_method) \<Rightarrow> string list \<Rightarrow> frame \<Rightarrow> signal list \<Rightarrow> py_error + signal list" where
  "collect_signals loaded [] data all_signals = Inr all_signals"
| "collect_signals loaded (strategy_name # rest) data all_signals =
     (case loaded strategy_name of
        None \<Rightarrow> collect_signals loaded rest data all_signals
      | Some generate \<Rightarrow>
          (case generate data of
             Inr signals \<Rightarrow> collect_signals loaded rest data (all_signals @ signals)
           | Inl e \<Rightarrow>
               if caught_by_Exception e then collect_signals loaded rest data all_signals
               else Inl e))"

text \<open>\<open>x.get('confidence', 0)\<close>.\<close>

definition confidence_or_zero :: "signal \<Rightarrow> real" where
  "confidence_or_zero x = (case confidence x of None \<Rightarrow> 0 | Some c \<Rightarrow> c)"

text \<open>
  Lines 96 to 98. \<open>list.sort(key=..., reverse=True)\<close> is stable: signals of equal key
  keep their order, which is \<open>sort_key\<close> on the negated key.
\<close>

definition sort_by_confidence :: "signal list \<Rightarrow> signal list" where
  "sort_by_confidence all_signals =
     (case all_signals of
        [] \<Rightarrow> all_signals
      | first # rest \<Rightarrow>
          if confidence first \<noteq> None
          then sort_key (\<lambda>x. - confidence_or_zero x) all_signals
          else all_signals)"

definition StrategyManager_generate_signals ::
  "strategy_manager \<Rightarrow> frame \<Rightarrow> py_error + signal list" where
  "StrategyManager_generate_signals sm data =
     (case collect_signals (strategies sm) (enabled_strategies sm) data [] of
        Inl e \<Rightarrow> Inl e
      | Inr all_signals \<Rightarrow> Inr (sort_by_confidence all_signals))"

text \<open>\<open>max(xs, key=f)\<close> on a non-empty list: the first element of greatest key.\<close>

fun max_by :: "('a \<Rightarrow> real) \<Rightarrow> 'a \<Rightarrow> 'a list \<Rightarrow> 'a" where
  "max_by f best [] = best"
| "max_by f best (x # xs) = max_by f (if f x > f best then x else best) xs"

text \<open>
  What one side adds to \<open>combined_signals\<close>: nothing when the side has no signal,
  else the signal of highest confidence when the side's first signal carries a
  confidence, else the side's first signal.
\<close>

definition best_signal :: "signal list \<Rightarrow> signal list" where
  "best_signal side_signals =
     (case side_signals of
        [] \<Rightarrow> []
      | first # rest \<Rightarrow>
          [if confidence first \<noteq> None then max_by confidence_or_zero first rest else first])"

definition combine_signals :: "signal list \<Rightarrow> signal list" where
  "combine_signals signals =
     (let buy_signals = filter (\<lambda>s. side s = ''BUY'') signals;
          sell_signals = filter (\<lambda>s. side s = ''SELL'') signals;
          total_signals = length signals
      in if total_signals = 0 then []
         else
           (let buy_percentage = real (length buy_signals) / real total_signals;
                sell_percentage = real (length sell_signals) / real total_signals
            in (if buy_percentage > 6 / 10 then best_signal buy_signals else []) @
               (if sell_percentage > 6 / 10 then best_signal sell_signals else [])))"

section \<open>base\_strategy.py and the sizing of ichimoku.py\<close>

text \<open>
  \<open>round(x, ndigits)\<close> of Python: the multiple of \<open>10 ^ -ndigits\<close> nearest to the
  double \<open>x\<close>. Numbers are reals here, and a real that lies in the middle between two
  multiples does not say on which side of the middle the double of the code lies:
  \<open>100 / 64000\<close> is 0.0015625 as a real, the double is a little above it, and Python
  returns 0.001563. \<open>middle_up x\<close> stands for that side: where it holds the middle
  \<open>x\<close> goes to the multiple above, else to the one below. Off the middles the
  result does not depend on it.
\<close>

definition py_round :: "(real \<Rightarrow> bool) \<Rightarrow> real \<Rightarrow> nat \<Rightarrow> real" where
  "py_round middle_up x ndigits =
     (let f = \<lfloor>x * 10 ^ ndigits\<rfloor>; d = x * 10 ^ ndigits - of_int f
      in of_int (if d < 1 / 2 then f
                 else if d > 1 / 2 then f + 1
                 else if middle_up x then f + 1 else f) / 10 ^ ndigits)"

text \<open>
  \<open>BaseStrategy.get_account_balance\<close>: the strategy's \<open>connection\<close> attribute is
  \<open>None\<close> until the strategy manager injects one.
\<close>

definition BaseStrategy_get_account_balance ::
  "config \<Rightarrow> connection option \<Rightarrow> py_error + real" where
  "BaseStrategy_get_account_balance cfg conn =
     (case conn of
        None \<Rightarrow> Inr 10000
      | Some c \<Rightarrow>
          (case get_account_balance c of
             Inl e \<Rightarrow> Inl e
           | Inr b \<Rightarrow>
               (case b (quote_currency (SYMBOL cfg)) of
                  Some bal \<Rightarrow> Inr (free bal)
                | None \<Rightarrow> Inr 10000)))"

definition BaseStrategy_calculate_position_size ::
  "(real \<Rightarrow> bool) \<Rightarrow> config \<Rightarrow> connection option \<Rightarrow> real \<Rightarrow> string \<Rightarrow> py_error + real" where
  "BaseStrategy_calculate_position_size middle_up cfg conn p trade_side =
     (case BaseStrategy_get_account_balance cfg conn of
        Inl e \<Rightarrow> Inl e
      | Inr account_balance \<Rightarrow>
          (let risk_amount = account_balance * RISK_PER_TRADE cfg in
           if p = 0 then Inl ZeroDivisionError
           else
             (let position_size = risk_amount / p;
                  position_size = min position_size (MAX_POSITION_SIZE cfg);
                  position_size = py_round middle_up position_size 6
              in Inr position_size)))"

text \<open>\<open>IchimokuStrategy\<close> overrides both methods; its balance is a placeholder.\<close>

definition IchimokuStrategy_get_account_balance :: real where
  "IchimokuStrategy_get_account_balance = 10000"

definition IchimokuStrategy_calculate_position_size ::
  "(real \<Rightarrow> bool) \<Rightarrow> config \<Rightarrow> real \<Rightarrow> string \<Rightarrow> py_error + real" where
  "IchimokuStrategy_calculate_position_size middle_up cfg p trade_side =
     (let account_balance = IchimokuStrategy_get_account_balance;
          risk_amount = account_balance * RISK_PER_TRADE cfg
      in if p = 0 then Inl ZeroDivisionError
         else
           (let position_size = risk_amount / p;
                position_size = min position_size (MAX_POSITION_SIZE cfg);
                position_size = py_round middle_up position_size 6
            in Inr position_size))"

section \<open>The pandas operations the code uses\<close>

text \<open>
  \<open>raise_or r k\<close> goes on with the value of \<open>r\<close>, or raises what \<open>r\<close> raises.
\<close>

definition raise_or :: "py_error + 'a \<Rightarrow> ('a \<Rightarrow> py_error + 'b) \<Rightarrow> py_error + 'b" where
  "raise_or r k = (case r of Inl e \<Rightarrow> Inl e | Inr v \<Rightarrow> k v)"

text \<open>\<open>len(df)\<close>, \<open>df.empty\<close>, \<open>df[name]\<close> and \<open>df[name] = values\<close>.\<close>

definition len :: "frame \<Rightarrow> nat" where
  "len df = length (index_labels df)"

definition empty :: "frame \<Rightarrow> bool" where
  "empty df = (index_labels df = [] \<or> columns df = [])"

definition get_column :: "frame \<Rightarrow> string \<Rightarrow> py_error + cell list" where
  "get_column df name =
     (case map_of (columns df) name of None \<Rightarrow> Inl (KeyError name) | Some c \<Rightarrow> Inr c)"

definition set_column :: "frame \<Rightarrow> string \<Rightarrow> cell list \<Rightarrow> frame" where
  "set_column df name values = df\<lparr>columns := AList.update name values (columns df)\<rparr>"

text \<open>
  Arithmetic on cells: NaN in, NaN out. A quotient by 0 is not a number of the model
  either (pandas gives NaN or an infinity there).
\<close>

definition cell2 :: "(real \<Rightarrow> real \<Rightarrow> real) \<Rightarrow> cell \<Rightarrow> cell \<Rightarrow> cell" where
  "cell2 f a b = (case (a, b) of (Some x, Some y) \<Rightarrow> Some (f x y) | _ \<Rightarrow> None)"

definition cell_divide :: "cell \<Rightarrow> cell \<Rightarrow> cell" where
  "cell_divide a b =
     (case (a, b) of (Some x, Some y) \<Rightarrow> if y = 0 then None else Some (x / y) | _ \<Rightarrow> None)"

definition scaled :: "real \<Rightarrow> cell list \<Rightarrow> cell list" where
  "scaled k xs = map (map_option (\<lambda>x. k * x)) xs"

text \<open>Comparisons of Python floats: every comparison with NaN is false.\<close>

definition cell_less :: "cell \<Rightarrow> cell \<Rightarrow> bool" where
  "cell_less a b = (case (a, b) of (Some x, Some y) \<Rightarrow> x < y | _ \<Rightarrow> False)"

definition cell_le :: "cell \<Rightarrow> cell \<Rightarrow> bool" where
  "cell_le a b = (case (a, b) of (Some x, Some y) \<Rightarrow> x \<le> y | _ \<Rightarrow> False)"

text \<open>The builtins \<open>max(a, b)\<close> and \<open>min(a, b)\<close>: \<open>a\<close> unless \<open>b\<close> beats it.\<close>

definition py_max :: "cell \<Rightarrow> cell \<Rightarrow> cell" where
  "py_max a b = (if cell_less a b then b else a)"

definition py_min :: "cell \<Rightarrow> cell \<Rightarrow> cell" where
  "py_min a b = (if cell_less b a then b else a)"

text \<open>
  \<open>series.rolling(window=w).max()\<close> and \<open>.min()\<close>: at row \<open>i\<close> the extreme of the \<open>w\<close>
  rows ending at \<open>i\<close>, NaN while fewer than \<open>w\<close> rows are there or one of them is NaN.
\<close>

definition rolling :: "(real \<Rightarrow> real \<Rightarrow> real) \<Rightarrow> nat \<Rightarrow> cell list \<Rightarrow> cell list" where
  "rolling pick w xs =
     map (\<lambda>i. if w = 0 \<or> i + 1 < w then None
              else (case take w (drop (i + 1 - w) xs) of
                      [] \<Rightarrow> None
                    | v # vs \<Rightarrow> fold (cell2 pick) vs v))
         [0..<length xs]"

text \<open>\<open>series.shift(k)\<close>: down by \<open>k\<close> rows for \<open>k \<ge> 0\<close>, up otherwise, NaN filled in.\<close>

definition shift :: "int \<Rightarrow> cell list \<Rightarrow> cell list" where
  "shift k xs =
     (let n = length xs in
      if 0 \<le> k then replicate (min (nat k) n) None @ take (n - nat k) xs
      else drop (nat (- k)) xs @ replicate (min (nat (- k)) n) None)"

text \<open>\<open>series.iloc[i]\<close>, negative positions counting from the end.\<close>

definition iloc :: "cell list \<Rightarrow> int \<Rightarrow> py_error + cell" where
  "iloc series position =
     (if 0 \<le> position \<and> position < int (length series)
      then Inr (series ! nat position)
      else if position < 0 \<and> - position \<le> int (length series)
      then Inr (series ! nat (int (length series) + position))
      else Inl IndexError)"

text \<open>\<open>series.cumsum()\<close>: NaN rows stay NaN and add nothing.\<close>

fun cumsum :: "real \<Rightarrow> cell list \<Rightarrow> cell list" where
  "cumsum acc [] = []"
| "cumsum acc (None # xs) = None # cumsum acc xs"
| "cumsum acc (Some x # xs) = Some (acc + x) # cumsum (acc + x) xs"

section \<open>ichimoku.py\<close>

text \<open>\<open>(a + b) / 2\<close> on two series.\<close>

definition midpoint_of :: "cell list \<Rightarrow> cell list \<Rightarrow> cell list" where
  "midpoint_of a b = map2 (cell2 (\<lambda>x y. (x + y) / 2)) a b"

definition calculate_ichimoku :: "config \<Rightarrow> frame \<Rightarrow> py_error + frame" where
  "calculate_ichimoku cfg df =
     raise_or (get_column df ''high'') (\<lambda>high.
     raise_or (get_column df ''low'') (\<lambda>low.
       (let tenkan_sen =
              midpoint_of (rolling max (tenkan_period cfg) high) (rolling min (tenkan_period cfg) low);
            kijun_sen =
              midpoint_of (rolling max (kijun_period cfg) high) (rolling min (kijun_period cfg) low);
            senkou_span_a = shift (int (displacement cfg)) (midpoint_of tenkan_sen kijun_sen);
            senkou_span_b =
              shift (int (displacement cfg))
                (midpoint_of (rolling max (senkou_span_b_period cfg) high)
                   (rolling min (senkou_span_b_period cfg) low));
            df = set_column df ''tenkan_sen'' tenkan_sen;
            df = set_column df ''kijun_sen'' kijun_sen;
            df = set_column df ''senkou_span_a'' senkou_span_a;
            df = set_column df ''senkou_span_b'' senkou_span_b
        in raise_or (get_column df ''close'') (\<lambda>close.
             Inr (set_column df ''chikou_span'' (shift (- int (displacement cfg)) close))))))"

text \<open>
  The two signals of lines 104 to 126. \<open>current_price\<close> and \<open>kijun\<close> are numbers when
  the conditions of a signal hold, since a comparison with NaN is false.
\<close>

definition ichimoku_signal ::
  "(real \<Rightarrow> bool) \<Rightarrow> config \<Rightarrow> nat \<Rightarrow> string \<Rightarrow> real \<Rightarrow> real \<Rightarrow> py_error + signal" where
  "ichimoku_signal middle_up cfg now trade_side current_price kijun =
     raise_or (IchimokuStrategy_calculate_position_size middle_up cfg current_price trade_side) (\<lambda>size.
       Inr \<lparr>strategy = ''ichimoku'', symbol = SYMBOL cfg, side = trade_side,
            price = Some current_price, quantity = size,
            stop_loss = Some (if trade_side = ''BUY'' then kijun * (99 / 100) else kijun * (101 / 100)),
            take_profit =
              Some (if trade_side = ''BUY'' then current_price + (current_price - kijun) * 2
                    else current_price - (kijun - current_price) * 2),
            timestamp = now, confidence = None\<rparr>)"

definition IchimokuStrategy_generate_signals ::
  "(real \<Rightarrow> bool) \<Rightarrow> config \<Rightarrow> nat \<Rightarrow> frame \<Rightarrow> py_error + signal list" where
  "IchimokuStrategy_generate_signals middle_up cfg now data =
     raise_or (calculate_ichimoku cfg data) (\<lambda>df.
       if len df < senkou_span_b_period cfg + displacement cfg then Inr []
       else
         raise_or (get_column df ''close'') (\<lambda>close.
         raise_or (get_column df ''tenkan_sen'') (\<lambda>tenkan_sen.
         raise_or (get_column df ''kijun_sen'') (\<lambda>kijun_sen.
         raise_or (get_column df ''senkou_span_a'') (\<lambda>senkou_span_a.
         raise_or (get_column df ''senkou_span_b'') (\<lambda>senkou_span_b.
         raise_or (get_column df ''chikou_span'') (\<lambda>chikou_span.
         raise_or (iloc close (- 1)) (\<lambda>current_price.
         raise_or (iloc tenkan_sen (- 1)) (\<lambda>tenkan.
         raise_or (iloc kijun_sen (- 1)) (\<lambda>kijun.
         raise_or (iloc senkou_span_a (- 1)) (\<lambda>span_a.
         raise_or (iloc senkou_span_b (- 1)) (\<lambda>span_b.
         raise_or (if len df > displacement cfg + 1
                   then map_sum id Some (iloc chikou_span (- int (displacement cfg) - 1))
                   else Inr None) (\<lambda>chikou.
         raise_or (iloc tenkan_sen (- 2)) (\<lambda>prev_tenkan.
         raise_or (iloc kijun_sen (- 2)) (\<lambda>prev_kijun.
           (let cloud_top = py_max span_a span_b;
                cloud_bottom = py_min span_a span_b;
                bullish_cloud = cell_less span_b span_a;
                tk_cross_bullish = (cell_less kijun tenkan \<and> cell_le prev_tenkan prev_kijun);
                price_above_cloud = cell_less cloud_top current_price;
                tk_cross_bearish = (cell_less tenkan kijun \<and> cell_le prev_kijun prev_tenkan);
                price_below_cloud = cell_less current_price cloud_bottom
            in
         raise_or (if len df > 2 * displacement cfg + 1
                   then (case chikou of
                           None \<Rightarrow> Inr None
                         | Some c \<Rightarrow> map_sum id Some (iloc close (- 2 * int (displacement cfg) - 1)))
                   else Inr None) (\<lambda>lagged_close.
           (let chikou_bullish =
                  (case (chikou, lagged_close) of (Some c, Some l) \<Rightarrow> cell_less l c | _ \<Rightarrow> False);
                chikou_bearish =
                  (case (chikou, lagged_close) of (Some c, Some l) \<Rightarrow> cell_less c l | _ \<Rightarrow> False);
                buy_signal = (tk_cross_bullish \<and> price_above_cloud \<and> bullish_cloud \<and> chikou_bullish);
                sell_signal =
                  (tk_cross_bearish \<and> price_below_cloud \<and> \<not> bullish_cloud \<and> chikou_bearish)
            in
         raise_or (case (buy_signal, current_price, kijun) of
                     (True, Some p, Some k) \<Rightarrow> map_sum id (\<lambda>s. [s]) (ichimoku_signal middle_up cfg now ''BUY'' p k)
                   | _ \<Rightarrow> Inr []) (\<lambda>buys.
         raise_or (case (sell_signal, current_price, kijun) of
                     (True, Some p, Some k) \<Rightarrow> map_sum id (\<lambda>s. [s]) (ichimoku_signal middle_up cfg now ''SELL'' p k)
                   | _ \<Rightarrow> Inr []) (\<lambda>sells.
           Inr (buys @ sells)))))))))))))))))))))"

section \<open>data\_processor.py\<close>

text \<open>
  The indicator functions of the \<open>ta\<close> package. The package is not part of the
  repository: its functions are parameters of the model, each from the series it reads
  to the series it returns.
\<close>

record ta_library =
  sma_indicator :: "cell list \<Rightarrow> nat \<Rightarrow> cell list"
  ema_indicator :: "cell list \<Rightarrow> nat \<Rightarrow> cell list"
  macd :: "cell list \<Rightarrow> cell list"
  macd_signal :: "cell list \<Rightarrow> cell list"
  macd_diff :: "cell list \<Rightarrow> cell list"
  rsi :: "cell list \<Rightarrow> cell list"
  bollinger_hband :: "cell list \<Rightarrow> cell list"
  bollinger_mavg :: "cell list \<Rightarrow> cell list"
  bollinger_lband :: "cell list \<Rightarrow> cell list"
  on_balance_volume :: "cell list \<Rightarrow> cell list \<Rightarrow> cell list"

text \<open>
  A run of assignments \<open>df[name] = expression\<close> on one frame, in place: each
  expression is evaluated on the frame as the assignments before it left it, and the
  first exception ends the run, leaving the frame with the columns assigned so far.
\<close>

fun assign_all ::
  "(string \<times> (frame \<Rightarrow> py_error + cell list)) list \<Rightarrow> frame \<Rightarrow> frame \<times> py_error option" where
  "assign_all [] df = (df, None)"
| "assign_all ((name, expression) # rest) df =
     (case expression df of
        Inl e \<Rightarrow> (df, Some e)
      | Inr values \<Rightarrow> assign_all rest (set_column df name values))"

definition of_close :: "(cell list \<Rightarrow> cell list) \<Rightarrow> frame \<Rightarrow> py_error + cell list" where
  "of_close indicator df = raise_or (get_column df ''close'') (\<lambda>close. Inr (indicator close))"

definition of_close_volume ::
  "(cell list \<Rightarrow> cell list \<Rightarrow> cell list) \<Rightarrow> frame \<Rightarrow> py_error + cell list" where
  "of_close_volume indicator df =
     raise_or (get_column df ''close'') (\<lambda>close.
     raise_or (get_column df ''volume'') (\<lambda>volume. Inr (indicator close volume)))"

text \<open>\<open>df[names]\<close>: the named columns, in the order of the names.\<close>

fun select_columns :: "string list \<Rightarrow> frame \<Rightarrow> py_error + (string \<times> cell list) list" where
  "select_columns [] df = Inr []"
| "select_columns (name # names) df =
     raise_or (get_column df name) (\<lambda>values.
     raise_or (select_columns names df) (\<lambda>others. Inr ((name, values) # others)))"

text \<open>The calendar day of a timestamp in milliseconds.\<close>

definition day_of :: "nat \<Rightarrow> nat" where
  "day_of t = t div 86400000"

text \<open>
  Lines 147 to 152 for the rows of one day: the running volume-weighted typical price.
\<close>

definition group_vwap ::
  "cell list \<Rightarrow> cell list \<Rightarrow> cell list \<Rightarrow> cell list \<Rightarrow> nat list \<Rightarrow> cell list" where
  "group_vwap volume high low close rows =
     (let group_volume = map (\<lambda>i. volume ! i) rows;
          price_sum = map (\<lambda>i. cell2 (+) (cell2 (+) (high ! i) (low ! i)) (close ! i)) rows;
          cum_vol = cumsum 0 group_volume;
          cum_vol_price =
            cumsum 0 (map (\<lambda>v. cell_divide v (Some 3)) (map2 (cell2 (*)) group_volume price_sum))
      in map2 cell_divide cum_vol_price cum_vol)"

text \<open>The loop of \<open>calculate_vwap\<close> over the days, in ascending order.\<close>

fun vwap_groups :: "nat list \<Rightarrow> nat list \<Rightarrow> frame \<Rightarrow> py_error + frame" where
  "vwap_groups days [] df_copy = Inr df_copy"
| "vwap_groups days (date # rest) df_copy =
     raise_or (get_column df_copy ''volume'') (\<lambda>volume.
     raise_or (get_column df_copy ''high'') (\<lambda>high.
     raise_or (get_column df_copy ''low'') (\<lambda>low.
     raise_or (get_column df_copy ''close'') (\<lambda>close.
     raise_or (get_column df_copy ''vwap'') (\<lambda>vwap.
       (let rows = filter (\<lambda>i. days ! i = date) [0..<length days];
            group = group_vwap volume high low close rows;
            vwap = fold (\<lambda>(i, v) column. column[i := v]) (zip rows group) vwap
        in vwap_groups days rest (set_column df_copy ''vwap'' vwap)))))))"

text \<open>
  The column that \<open>df.reset_index()\<close> makes of the index: it carries the name of the
  index, and \<open>index\<close> when the index has none (\<open>level_0\<close> when \<open>index\<close> is a column
  already).
\<close>

definition reset_index_column :: "frame \<Rightarrow> string" where
  "reset_index_column df =
     (case index_name df of
        Some name \<Rightarrow> name
      | None \<Rightarrow> if ''index'' \<in> set (map fst (columns df)) then ''level_0'' else ''index'')"

text \<open>
  \<open>calculate_vwap\<close> works on \<open>df.reset_index()\<close>, a frame of its own in which the
  index has become a column (pandas refuses when a column of that name is there
  already). \<open>df_copy['open_time']\<close> is that column when the index is named
  \<open>open_time\<close>; otherwise it is a column of numbers, on which \<open>.dt\<close> raises, or
  it is missing, as in \<open>pd.DataFrame()\<close>, and the lookup raises. The result has
  the columns of \<open>df\<close> and \<open>vwap\<close> under the old index.
\<close>

definition calculate_vwap :: "frame \<Rightarrow> py_error + frame" where
  "calculate_vwap df =
     (if reset_index_column df \<in> set (map fst (columns df))
      then Inl (ValueError (''cannot insert '' @ reset_index_column df @ '', already exists''))
      else if reset_index_column df \<noteq> ''open_time''
      then (if ''open_time'' \<in> set (map fst (columns df))
            then Inl (AttributeError ''Can only use .dt accessor with datetimelike values'')
            else Inl (KeyError ''open_time''))
      else
        (let days = map day_of (index_labels df);
             df_copy = df\<lparr>columns := (''open_time'', map (\<lambda>t. Some (real t)) (index_labels df)) # columns df\<rparr>;
             df_copy = set_column df_copy ''date'' (map (\<lambda>d. Some (real d)) days);
             df_copy = set_column df_copy ''vwap'' (replicate (len df) (Some 0))
         in raise_or (vwap_groups days (sort (remdups days)) df_copy) (\<lambda>df_copy.
            raise_or (select_columns (map fst (columns df) @ [''vwap'']) df_copy) (\<lambda>selected.
              Inr (df\<lparr>columns := selected\<rparr>)))))"

definition series2 :: "(real \<Rightarrow> real \<Rightarrow> real) \<Rightarrow> cell list \<Rightarrow> cell list \<Rightarrow> cell list" where
  "series2 f a b = map2 (cell2 f) a b"

text \<open>\<open>calculate_pivot_points\<close> works on a copy and returns it.\<close>

definition calculate_pivot_points :: "config \<Rightarrow> frame \<Rightarrow> py_error + frame" where
  "calculate_pivot_points cfg df =
     (let lookback = lookback_period cfg in
      raise_or (get_column df ''high'') (\<lambda>high.
      raise_or (get_column df ''low'') (\<lambda>low.
      raise_or (get_column df ''close'') (\<lambda>close.
        (let h = shift lookback high; l = shift lookback low; c = shift lookback close;
             pivot = map (\<lambda>v. cell_divide v (Some 3)) (series2 (+) (series2 (+) h l) c);
             df_copy = set_column df ''pivot'' pivot;
             df_copy = set_column df_copy ''r1'' (series2 (-) (scaled 2 pivot) l);
             df_copy = set_column df_copy ''s1'' (series2 (-) (scaled 2 pivot) h);
             df_copy = set_column df_copy ''r2'' (series2 (+) pivot (series2 (-) h l));
             df_copy = set_column df_copy ''s2'' (series2 (-) pivot (series2 (-) h l));
             df_copy = set_column df_copy ''r3'' (series2 (+) h (scaled 2 (series2 (-) pivot l)));
             df_copy = set_column df_copy ''s3'' (series2 (-) l (scaled 2 (series2 (-) h pivot)))
         in Inr df_copy)))))"

text \<open>
  \<open>calculate_indicators\<close> assigns its first thirteen columns to the frame it was
  handed, the caller's: the result is the pair of that frame as the call leaves it and
  of what the call returns or raises.
\<close>

definition calculate_indicators ::
  "ta_library \<Rightarrow> config \<Rightarrow> frame \<Rightarrow> frame \<times> (py_error + frame)" where
  "calculate_indicators ta cfg df =
     (if empty df then (df, Inr df)
      else
        (case assign_all
                [(''sma_20'', of_close (\<lambda>close. sma_indicator ta close 20)),
                 (''sma_50'', of_close (\<lambda>close. sma_indicator ta close 50)),
                 (''sma_200'', of_close (\<lambda>close. sma_indicator ta close 200)),
                 (''ema_12'', of_close (\<lambda>close. ema_indicator ta close 12)),
                 (''ema_26'', of_close (\<lambda>close. ema_indicator ta close 26)),
                 (''macd_line'', of_close (macd ta)),
                 (''macd_signal'', of_close (macd_signal ta)),
                 (''macd_histogram'', of_close (macd_diff ta)),
                 (''rsi'', of_close (rsi ta)),
                 (''bb_upper'', of_close (bollinger_hband ta)),
                 (''bb_middle'', of_close (bollinger_mavg ta)),
                 (''bb_lower'', of_close (bollinger_lband ta)),
                 (''obv'', of_close_volume (on_balance_volume ta))] df of
           (df, Some e) \<Rightarrow> (df, Inl e)
         | (df, None) \<Rightarrow> (df, raise_or (calculate_vwap df) (calculate_pivot_points cfg))))"

section \<open>Vocabulary of the properties\<close>

text \<open>The price \<open>validate_trade\<close> works with: \<open>signal.get('price', 0)\<close>.\<close>

definition price_or_zero :: "signal \<Rightarrow> real" where
  "price_or_zero sig = (case price sig of None \<Rightarrow> 0 | Some v \<Rightarrow> v)"

text \<open>
  \<open>ratchet t t'\<close>: \<open>t'\<close> is the trade \<open>t\<close> with its stop-loss moved, if at all, in the
  direction that reduces risk: up for a long (\<open>BUY\<close>) trade, down for any other. A trade
  without a stop-loss stays without one.
\<close>

definition ratchet :: "signal \<Rightarrow> signal \<Rightarrow> bool" where
  "ratchet t t' =
     (side t' = side t \<and> symbol t' = symbol t \<and> price t' = price t \<and>
      (case stop_loss t of
         None \<Rightarrow> stop_loss t' = None
       | Some s \<Rightarrow>
           (case stop_loss t' of
              None \<Rightarrow> False
            | Some s' \<Rightarrow> if side t = ''BUY'' then s \<le> s' else s' \<le> s)))"

text \<open>The same trades under the same identifiers, in the same order, each ratcheted.\<close>

definition ratchet_all :: "('id \<times> signal) list \<Rightarrow> ('id \<times> signal) list \<Rightarrow> bool" where
  "ratchet_all before after =
     list_all2 (\<lambda>x y. fst y = fst x \<and> ratchet (snd x) (snd y)) before after"

text \<open>
  What a named strategy adds to the signals of a cycle (nothing when it is not loaded or
  raises), whether it raises, and whether what it raises, if anything, is an
  \<open>Exception\<close>.
\<close>

definition contribution :: "(string \<rightharpoonup> strategy_method) \<Rightarrow> frame \<Rightarrow> string \<Rightarrow> signal list" where
  "contribution loaded data strategy_name =
     (case loaded strategy_name of
        None \<Rightarrow> []
      | Some generate \<Rightarrow> (case generate data of Inr signals \<Rightarrow> signals | Inl e \<Rightarrow> []))"

definition raises :: "(string \<rightharpoonup> strategy_method) \<Rightarrow> frame \<Rightarrow> string \<Rightarrow> bool" where
  "raises loaded data strategy_name =
     (case loaded strategy_name of
        None \<Rightarrow> False
      | Some generate \<Rightarrow> (case generate data of Inr signals \<Rightarrow> False | Inl e \<Rightarrow> True))"

definition raises_Exception_only :: "(string \<rightharpoonup> strategy_method) \<Rightarrow> frame \<Rightarrow> string \<Rightarrow> bool" where
  "raises_Exception_only loaded data strategy_name =
     (case loaded strategy_name of
        None \<Rightarrow> True
      | Some generate \<Rightarrow>
          (case generate data of Inr signals \<Rightarrow> True | Inl e \<Rightarrow> caught_by_Exception e))"

text \<open>The signals of one side and their share of all signals.\<close>

definition side_signals :: "string \<Rightarrow> signal list \<Rightarrow> signal list" where
  "side_signals sd signals = filter (\<lambda>s. side s = sd) signals"

definition side_fraction :: "string \<Rightarrow> signal list \<Rightarrow> real" where
  "side_fraction sd signals = real (length (side_signals sd signals)) / real (length signals)"

subsection \<open>Concrete inputs\<close>

text \<open>A manager before its first refresh, and two answers of the exchange.\<close>

definition new_risk_manager :: risk_manager where
  "new_risk_manager =
     \<lparr>open_positions = [], balances = None, open_orders = None, total_exposure = None\<rparr>"

definition usdt_only :: connection where
  "usdt_only =
     \<lparr>get_account_balance =
        Inr [''USDT'' \<mapsto> \<lparr>free = 10000, locked = 0, total = 10000\<rparr>],
      get_open_orders = Inr []\<rparr>"

definition heavy_exposure :: connection where
  "heavy_exposure =
     \<lparr>get_account_balance =
        Inr [''USDT'' \<mapsto> \<lparr>free = 10000, locked = 0, total = 10000\<rparr>,
             ''BTC'' \<mapsto> \<lparr>free = 9500, locked = 0, total = 9500\<rparr>],
      get_open_orders = Inr []\<rparr>"

definition buy_signal :: "real \<Rightarrow> signal" where
  "buy_signal q =
     \<lparr>strategy = ''ichimoku'', symbol = ''BTCUSDT'', side = ''BUY'', price = Some 50000,
      quantity = q, stop_loss = None, take_profit = None, timestamp = 0, confidence = None\<rparr>"

definition long_trade :: signal where
  "long_trade = (buy_signal (2 / 1000))\<lparr>stop_loss := Some 49000\<rparr>"

text \<open>The two managers after their refresh.\<close>

definition refreshed_usdt_only :: risk_manager where
  "refreshed_usdt_only =
     \<lparr>open_positions = [],
      balances = Some [''USDT'' \<mapsto> \<lparr>free = 10000, locked = 0, total = 10000\<rparr>],
      open_orders = Some Map.empty, total_exposure = Some 0\<rparr>"

definition refreshed_heavy_exposure :: risk_manager where
  "refreshed_heavy_exposure =
     \<lparr>open_positions = [],
      balances = Some [''USDT'' \<mapsto> \<lparr>free = 10000, locked = 0, total = 10000\<rparr>,
                       ''BTC'' \<mapsto> \<lparr>free = 9500, locked = 0, total = 9500\<rparr>],
      open_orders = Some Map.empty, total_exposure = Some 9500\<rparr>"

text \<open>Three strategies: one that raises, two that return one scored signal each.\<close>

definition scored :: "string \<Rightarrow> real \<Rightarrow> signal" where
  "scored sd c = (buy_signal (1 / 1000))\<lparr>side := sd, confidence := Some c\<rparr>"

definition unscored :: "string \<Rightarrow> nat \<Rightarrow> signal" where
  "unscored sd t = (buy_signal (1 / 1000))\<lparr>side := sd, timestamp := t\<rparr>"

definition three_strategies :: strategy_manager where
  "three_strategies =
     \<lparr>strategies =
        [''gap'' \<mapsto> (\<lambda>data. Inl (Exception ''no gap column'')),
         ''vwap'' \<mapsto> (\<lambda>data. Inr [scored ''BUY'' (1 / 10)]),
         ''momentum'' \<mapsto> (\<lambda>data. Inr [scored ''SELL'' (9 / 10)])],
      enabled_strategies = [''gap'', ''vwap'', ''momentum'']\<rparr>"

definition mixed_strategy :: strategy_manager where
  "mixed_strategy =
     \<lparr>strategies =
        [''vwap'' \<mapsto>
           (\<lambda>data. Inr [scored ''BUY'' (1 / 10), unscored ''BUY'' 1, scored ''BUY'' (9 / 10)])],
      enabled_strategies = [''vwap'']\<rparr>"

text \<open>Two Buy signals around one Sell signal, none with a confidence score.\<close>

definition two_buys_one_sell :: "signal list" where
  "two_buys_one_sell = [unscored ''BUY'' 1, unscored ''SELL'' 2, unscored ''BUY'' 3]"

text \<open>A frame of one candle, as \<open>_klines_to_dataframe\<close> builds it.\<close>

definition one_candle :: frame where
  "one_candle =
     \<lparr>index_name = Some ''open_time'', index_labels = [1700000000000],
      columns = [(''open'', [Some 50000]), (''high'', [Some 50500]), (''low'', [Some 49500]),
                 (''close'', [Some 50200]), (''volume'', [Some 12])]\<rparr>"


section \<open>Risk:reward ratio\<close>

text \<open>
  C9. \<open>calculate_risk_reward_ratio\<close> returns \<open>|take_profit - entry| / |entry - stop_loss|\<close>
  for a Buy trade, the mirrored quotient \<open>|entry - take_profit| / |stop_loss - entry|\<close> for
  any other side, and exactly 0 whenever the risk denominator \<open>|entry - stop_loss|\<close> is 0.
\<close>

theorem calculate_risk_reward_ratio_value:
  "calculate_risk_reward_ratio entry stop target trade_side =
     (if \<bar>entry - stop\<bar> = 0 then 0
      else if upper trade_side = ''BUY'' then \<bar>target - entry\<bar> / \<bar>entry - stop\<bar>
      else \<bar>entry - target\<bar> / \<bar>stop - entry\<bar>)"
  by (simp add: calculate_risk_reward_ratio_def)



section \<open>The exposure ceiling of validate\_trade\<close>

lemma validate_trade_refreshes:
  assumes "validate_trade cfg conn rm0 sig = Inr (accepted, sig', rm)"
  shows "update_account_state cfg conn rm0 = Inr rm"
  using assms
  by (auto simp: validate_trade_def Let_def split: sum.splits if_splits option.splits)

lemma validate_trade_returns:
  assumes "update_account_state cfg conn rm0 = Inr rm"
    and "balances rm \<noteq> None" and "total_exposure rm \<noteq> None"
    and "price_or_zero sig \<noteq> 0"
  shows "\<exists>accepted sig'. validate_trade cfg conn rm0 sig = Inr (accepted, sig', rm)"
  using assms
  by (auto simp: validate_trade_def calculate_max_position_size_def get_account_value_def
      price_or_zero_def Let_def split: sum.splits option.splits)

text \<open>
  C1. Whenever \<open>validate_trade\<close> accepts a signal, the total exposure that the refresh at
  the start of the call recorded, plus the trade value (the final quantity times the
  price), is at most 0.9 times the account value; whenever that sum exceeds 0.9 times
  the account value the verdict is a rejection. The call does return a verdict when the
  refresh has left balances and an exposure and the price is not 0.
\<close>

theorem validate_trade_exposure_ceiling:
  "(validate_trade cfg conn rm0 sig = Inr (accepted, sig', rm) \<longrightarrow>
      update_account_state cfg conn rm0 = Inr rm \<and>
      (accepted \<longrightarrow>
         (\<exists>exposure account_value.
            total_exposure rm = Some exposure \<and>
            get_account_value cfg rm = Inr account_value \<and>
            exposure + quantity sig' * price_or_zero sig \<le> 9 / 10 * account_value)) \<and>
      (\<forall>exposure account_value.
         total_exposure rm = Some exposure \<longrightarrow>
         get_account_value cfg rm = Inr account_value \<longrightarrow>
         exposure + quantity sig' * price_or_zero sig > 9 / 10 * account_value \<longrightarrow>
         \<not> accepted)) \<and>
   (update_account_state cfg conn rm0 = Inr rm1 \<longrightarrow> balances rm1 \<noteq> None \<longrightarrow>
      total_exposure rm1 \<noteq> None \<longrightarrow> price_or_zero sig \<noteq> 0 \<longrightarrow>
      (\<exists>verdict sig1. validate_trade cfg conn rm0 sig = Inr (verdict, sig1, rm1)))"
proof -
  have "update_account_state cfg conn rm0 = Inr rm \<and>
      (accepted \<longrightarrow>
         (\<exists>exposure account_value.
            total_exposure rm = Some exposure \<and>
            get_account_value cfg rm = Inr account_value \<and>
            exposure + quantity sig' * price_or_zero sig \<le> 9 / 10 * account_value)) \<and>
      (\<forall>exposure account_value.
         total_exposure rm = Some exposure \<longrightarrow>
         get_account_value cfg rm = Inr account_value \<longrightarrow>
         exposure + quantity sig' * price_or_zero sig > 9 / 10 * account_value \<longrightarrow>
         \<not> accepted)"
    if "validate_trade cfg conn rm0 sig = Inr (accepted, sig', rm)"
    using that
    apply (simp add: validate_trade_def price_or_zero_def Let_def
        split: sum.splits if_splits option.splits)
         apply (auto simp: add_take_profit_def add_stop_loss_def clamp_quantity_def
        split: if_splits)
    done
  then show ?thesis
    using validate_trade_returns [of cfg conn rm0 rm1 sig] by blast
qed

lemma validate_trade_light:
  "validate_trade default_config usdt_only new_risk_manager (buy_signal (1 / 1000))
     = Inr (True,
            (buy_signal (1 / 1000))\<lparr>stop_loss := Some 49000, take_profit := Some 52000\<rparr>,
            refreshed_usdt_only)"
  by (simp add: validate_trade_def update_account_state_def usdt_only_def new_risk_manager_def
      calculate_exposure_def default_config_def base_currency_def quote_currency_def
      opposite_position_def calculate_max_position_size_def get_account_value_def
      clamp_quantity_def min_position_size_def add_stop_loss_def add_take_profit_def
      buy_signal_def refreshed_usdt_only_def)

theorem validate_trade_exposure_ceiling_accepts:
  "validate_trade default_config usdt_only new_risk_manager (buy_signal (1 / 1000))
     = Inr (True,
            (buy_signal (1 / 1000))\<lparr>stop_loss := Some 49000, take_profit := Some 52000\<rparr>,
            refreshed_usdt_only) \<and>
   (\<exists>exposure account_value.
      total_exposure refreshed_usdt_only = Some exposure \<and>
      get_account_value default_config refreshed_usdt_only = Inr account_value \<and>
      exposure
        + quantity ((buy_signal (1 / 1000))\<lparr>stop_loss := Some 49000, take_profit := Some 52000\<rparr>)
          * price_or_zero (buy_signal (1 / 1000))
        \<le> 9 / 10 * account_value)"
  using validate_trade_light
    validate_trade_exposure_ceiling [of default_config usdt_only new_risk_manager
      "buy_signal (1 / 1000)" True
      "(buy_signal (1 / 1000))\<lparr>stop_loss := Some 49000, take_profit := Some 52000\<rparr>"
      refreshed_usdt_only]
  by blast

section \<open>What a rejection at the exposure ceiling leaves in the signal\<close>

lemma validate_trade_heavy:
  "validate_trade default_config heavy_exposure new_risk_manager (buy_signal (2 / 100))
     = Inr (False,
            (buy_signal (2 / 1000))\<lparr>stop_loss := Some 49000, take_profit := Some 52000\<rparr>,
            refreshed_heavy_exposure)"
  by (simp add: validate_trade_def update_account_state_def heavy_exposure_def new_risk_manager_def
      calculate_exposure_def default_config_def base_currency_def quote_currency_def
      opposite_position_def calculate_max_position_size_def get_account_value_def
      clamp_quantity_def min_position_size_def add_stop_loss_def add_take_profit_def
      buy_signal_def refreshed_heavy_exposure_def)

lemma max_position_size_heavy:
  "calculate_max_position_size cfg refreshed_heavy_exposure s 50000
     = Inr (min (10000 * RISK_PER_TRADE cfg / 50000) (MAX_POSITION_SIZE cfg))"
  if "SYMBOL cfg = ''BTCUSDT''"
  using that
  by (simp add: calculate_max_position_size_def get_account_value_def quote_currency_def
      refreshed_heavy_exposure_def)

text \<open>
  C10, as the code has it. A signal that passes the position-count, direction and
  minimum-size checks and is then rejected at the exposure ceiling comes back changed:
  its quantity is the smaller of the requested quantity and the maximum position size,
  its take-profit is filled in when it was absent, and its stop-loss is filled in when it
  was absent and \<open>USE_STOP_LOSS\<close> is on. With \<open>USE_STOP_LOSS\<close> off an absent stop-loss
  stays absent.
\<close>

theorem validate_trade_rejection_mutates:
  assumes "validate_trade cfg conn rm0 sig = Inr (False, sig', rm)"
    and "int (length (open_positions rm)) < MAX_OPEN_TRADES cfg"
    and "\<not> opposite_position rm sig"
    and "calculate_max_position_size cfg rm (symbol sig) (price_or_zero sig) = Inr m"
    and "min_position_size \<le> min (quantity sig) m"
  shows "quantity sig' = min (quantity sig) m \<and>
         take_profit sig' =
           (case take_profit sig of
              Some t \<Rightarrow> Some t
            | None \<Rightarrow>
                Some (price_or_zero sig *
                  (if side sig = ''BUY'' then 1 + TAKE_PROFIT_PCT cfg else 1 - TAKE_PROFIT_PCT cfg))) \<and>
         stop_loss sig' =
           (case stop_loss sig of
              Some s \<Rightarrow> Some s
            | None \<Rightarrow>
                if USE_STOP_LOSS cfg
                then Some (price_or_zero sig *
                  (if side sig = ''BUY'' then 1 - STOP_LOSS_PCT cfg else 1 + STOP_LOSS_PCT cfg))
                else None) \<and>
         sig' = add_take_profit cfg (price_or_zero sig)
                  (add_stop_loss cfg (price_or_zero sig) (clamp_quantity m sig)) \<and>
         (\<exists>exposure account_value.
            total_exposure rm = Some exposure \<and>
            get_account_value cfg rm = Inr account_value \<and>
            exposure + quantity sig' * price_or_zero sig > 9 / 10 * account_value)"
  using assms
  apply (simp add: validate_trade_def price_or_zero_def Let_def
      split: sum.splits if_splits option.splits)
   apply (auto simp: add_take_profit_def add_stop_loss_def clamp_quantity_def min_def
      split: if_splits)
  done

theorem validate_trade_rejection_mutates_default:
  "validate_trade default_config heavy_exposure new_risk_manager (buy_signal (2 / 100))
     = Inr (False,
            (buy_signal (2 / 1000))\<lparr>stop_loss := Some 49000, take_profit := Some 52000\<rparr>,
            refreshed_heavy_exposure) \<and>
   int (length (open_positions refreshed_heavy_exposure)) < MAX_OPEN_TRADES default_config \<and>
   \<not> opposite_position refreshed_heavy_exposure (buy_signal (2 / 100)) \<and>
   calculate_max_position_size default_config refreshed_heavy_exposure
     (symbol (buy_signal (2 / 100))) (price_or_zero (buy_signal (2 / 100))) = Inr (2 / 1000) \<and>
   min_position_size \<le> min (quantity (buy_signal (2 / 100))) (2 / 1000) \<and>
   quantity ((buy_signal (2 / 1000))\<lparr>stop_loss := Some 49000, take_profit := Some 52000\<rparr>)
     = min (quantity (buy_signal (2 / 100))) (2 / 1000) \<and>
   (buy_signal (2 / 1000))\<lparr>stop_loss := Some 49000, take_profit := Some 52000\<rparr>
     \<noteq> buy_signal (2 / 100)"
proof -
  have a: "int (length (open_positions refreshed_heavy_exposure)) < MAX_OPEN_TRADES default_config"
    by (simp add: refreshed_heavy_exposure_def default_config_def)
  have b: "\<not> opposite_position refreshed_heavy_exposure (buy_signal (2 / 100))"
    by (simp add: opposite_position_def refreshed_heavy_exposure_def)
  have c: "calculate_max_position_size default_config refreshed_heavy_exposure
     (symbol (buy_signal (2 / 100))) (price_or_zero (buy_signal (2 / 100))) = Inr (2 / 1000)"
    by (simp add: max_position_size_heavy price_or_zero_def buy_signal_def default_config_def)
  have d: "min_position_size \<le> min (quantity (buy_signal (2 / 100))) (2 / 1000)"
    by (simp add: min_position_size_def buy_signal_def)
  have e: "(buy_signal (2 / 1000))\<lparr>stop_loss := Some 49000, take_profit := Some 52000\<rparr>
     \<noteq> buy_signal (2 / 100)"
    by (simp add: buy_signal_def)
  show ?thesis
    using validate_trade_rejection_mutates [OF validate_trade_heavy a b c d]
      validate_trade_heavy a b c d e
    by simp
qed

theorem validate_trade_no_stop_loss_backfill:
  "validate_trade (default_config\<lparr>USE_STOP_LOSS := False\<rparr>) heavy_exposure new_risk_manager
       (buy_signal (2 / 100))
     = Inr (False, (buy_signal (2 / 1000))\<lparr>take_profit := Some 52000\<rparr>,
            refreshed_heavy_exposure) \<and>
   int (length (open_positions refreshed_heavy_exposure))
     < MAX_OPEN_TRADES (default_config\<lparr>USE_STOP_LOSS := False\<rparr>) \<and>
   \<not> opposite_position refreshed_heavy_exposure (buy_signal (2 / 100)) \<and>
   min_position_size \<le> quantity ((buy_signal (2 / 1000))\<lparr>take_profit := Some 52000\<rparr>) \<and>
   9 / 10 * (10000 :: real)
     < 9500 + quantity ((buy_signal (2 / 1000))\<lparr>take_profit := Some 52000\<rparr>) * 50000 \<and>
   stop_loss ((buy_signal (2 / 1000))\<lparr>take_profit := Some 52000\<rparr>) = None"
  by (simp add: validate_trade_def update_account_state_def heavy_exposure_def new_risk_manager_def
      calculate_exposure_def default_config_def base_currency_def quote_currency_def
      opposite_position_def calculate_max_position_size_def get_account_value_def
      clamp_quantity_def min_position_size_def add_stop_loss_def add_take_profit_def
      buy_signal_def refreshed_heavy_exposure_def)

section \<open>The trailing-stop ratchet\<close>

lemma ratchet_refl: "ratchet t t"
  by (simp add: ratchet_def split: option.splits)

lemma ratchet_trans: "ratchet a b \<Longrightarrow> ratchet b c \<Longrightarrow> ratchet a c"
  by (auto simp: ratchet_def split: option.splits if_splits)

lemma ratchet_adjust_trade: "ratchet t (adjust_trade cfg current_price t)"
  by (auto simp: ratchet_def adjust_trade_def Let_def split: option.splits)

lemma ratchet_all_refl: "ratchet_all ts ts"
  by (simp add: ratchet_all_def list_all2_same ratchet_refl)

lemma ratchet_all_trans: "ratchet_all a b \<Longrightarrow> ratchet_all b c \<Longrightarrow> ratchet_all a c"
  unfolding ratchet_all_def
  by (erule list_all2_trans[rotated], assumption) (auto intro: ratchet_trans)

lemma ratchet_all_adjust_stops_at: "ratchet_all ts (adjust_stops_at current cfg ts)"
  by (auto simp: adjust_stops_at_def ratchet_all_def list_all2_map2
        list_all2_same ratchet_adjust_trade ratchet_refl split: prod.splits)

lemma ratchet_all_run: "ratchet_all ts (adjust_stops_run cycles ts)"
proof (induction cycles arbitrary: ts)
  case Nil
  then show ?case by (simp add: ratchet_all_refl)
next
  case (Cons c cycles)
  obtain cfg current where c: "c = (cfg, current)" by (cases c)
  have "ratchet_all ts (adjust_stops_at current cfg ts)"
    by (rule ratchet_all_adjust_stops_at)
  moreover have "ratchet_all (adjust_stops_at current cfg ts)
      (adjust_stops_run cycles (adjust_stops_at current cfg ts))"
    by (rule Cons.IH)
  ultimately show ?case
    unfolding c by (auto intro: ratchet_all_trans)
qed

lemma stop_loss_adjust_trade:
  "stop_loss (adjust_trade cfg current_price trade) =
     (case (price trade, stop_loss trade) of
        (Some entry_price, Some old_stop) \<Rightarrow>
          (if side trade = ''BUY''
           then (if current_price * (1 - TRAILING_STOP_PCT cfg) > old_stop
                 then Some (current_price * (1 - TRAILING_STOP_PCT cfg)) else Some old_stop)
           else (if current_price * (1 + TRAILING_STOP_PCT cfg) < old_stop
                 then Some (current_price * (1 + TRAILING_STOP_PCT cfg)) else Some old_stop))
      | _ \<Rightarrow> stop_loss trade)"
  by (simp add: adjust_trade_def Let_def split: option.splits)

text \<open>
  C2. Over every run of calls of \<open>adjust_stops\<close>, whatever the prices and the
  configuration of each call, every open trade keeps its identifier, side, symbol and
  entry price, and its stop-loss only ratchets: for a long (\<open>BUY\<close>) trade the stop-loss
  after the run is at least the one before, for a short trade at most the one before.
  In one call the candidate \<open>current_price * (1 - TRAILING_STOP_PCT)\<close> replaces the stop
  of a long trade only when it is strictly greater, and
  \<open>current_price * (1 + TRAILING_STOP_PCT)\<close> that of a short trade only when it is strictly
  less. \<open>adjust_stops\<close> itself is one such call, at the placeholder price.
\<close>

theorem adjust_stops_ratchet:
  "ratchet_all open_trades (adjust_stops_run cycles open_trades) \<and>
   ratchet_all open_trades (adjust_stops cfg open_trades) \<and>
   adjust_stops cfg open_trades = adjust_stops_run [(cfg, get_current_price)] open_trades \<and>
   stop_loss (adjust_trade cfg current_price trade) =
     (case (price trade, stop_loss trade) of
        (Some entry_price, Some old_stop) \<Rightarrow>
          (if side trade = ''BUY''
           then (if current_price * (1 - TRAILING_STOP_PCT cfg) > old_stop
                 then Some (current_price * (1 - TRAILING_STOP_PCT cfg)) else Some old_stop)
           else (if current_price * (1 + TRAILING_STOP_PCT cfg) < old_stop
                 then Some (current_price * (1 + TRAILING_STOP_PCT cfg)) else Some old_stop))
      | _ \<Rightarrow> stop_loss trade)"
  by (simp add: ratchet_all_run adjust_stops_def ratchet_all_adjust_stops_at
      stop_loss_adjust_trade)

theorem adjust_stops_ratchet_two_ticks:
  "adjust_stops_run [(default_config, \<lambda>s. 50500), (default_config, \<lambda>s. 50000)]
       [(1 :: nat, long_trade)]
     = [(1, long_trade\<lparr>stop_loss := Some 49995\<rparr>)] \<and>
   ratchet_all [(1 :: nat, long_trade)] [(1, long_trade\<lparr>stop_loss := Some 49995\<rparr>)]"
proof -
  have run: "adjust_stops_run [(default_config, \<lambda>s. 50500), (default_config, \<lambda>s. 50000)]
       [(1 :: nat, long_trade)]
     = [(1, long_trade\<lparr>stop_loss := Some 49995\<rparr>)]"
    by (simp add: adjust_stops_at_def adjust_trade_def default_config_def long_trade_def
        buy_signal_def)
  show ?thesis
    using adjust_stops_ratchet [of "[(1 :: nat, long_trade)]"
        "[(default_config, \<lambda>s. 50500), (default_config, \<lambda>s. 50000)]"] run
    by simp
qed


section \<open>Position sizing\<close>

text \<open>
  Whichever way the middles go, \<open>py_round x 6\<close> is a multiple of 0.000001 and no
  multiple is nearer to \<open>x\<close>.
\<close>

lemma py_round_multiple: "\<exists>k :: int. py_round middle_up x 6 = of_int k / 1000000"
  unfolding py_round_def Let_def by (rule exI) simp

lemma py_round_near: "\<bar>py_round middle_up x 6 - x\<bar> \<le> 1 / 2000000"
proof -
  define f where "f = \<lfloor>x * 1000000\<rfloor>"
  define k where "k = (if x * 1000000 - of_int f < 1 / 2 then f
                 else if x * 1000000 - of_int f > 1 / 2 then f + 1
                 else if middle_up x then f + 1 else f)"
  have r: "py_round middle_up x 6 = of_int k / 1000000"
    by (simp add: py_round_def Let_def k_def f_def)
  have "of_int f \<le> x * 1000000" and "x * 1000000 < of_int f + 1"
    unfolding f_def by linarith+
  then have "\<bar>of_int k - x * 1000000\<bar> \<le> 1 / 2"
    unfolding k_def by (auto simp: abs_if)
  then show ?thesis unfolding r by linarith
qed

text \<open>The one multiple of 0.000001 within 0.0000005 of a number that is not a middle.\<close>

lemma py_round_value:
  assumes "\<bar>of_int n - x * 1000000\<bar> < 1 / 2"
  shows "py_round middle_up x 6 = of_int n / 1000000"
proof -
  obtain k :: int where k: "py_round middle_up x 6 = of_int k / 1000000"
    using py_round_multiple by blast
  have "\<bar>of_int k / 1000000 - x\<bar> \<le> 1 / 2000000"
    using py_round_near [of middle_up x] unfolding k .
  then have "\<bar>(of_int k :: real) - of_int n\<bar> < 1"
    using assms by linarith
  then have "\<bar>k - n\<bar> < 1"
    by (metis of_int_abs of_int_diff of_int_less_1_iff)
  then have "k = n" by simp
  then show ?thesis using k by simp
qed

text \<open>A rounded quantity stays under a ceiling that is itself a multiple of 0.000001.\<close>

lemma py_round_ceiling:
  assumes "x \<le> of_int m / 1000000"
  shows "py_round middle_up x 6 \<le> of_int m / 1000000"
proof -
  obtain k :: int where k: "py_round middle_up x 6 = of_int k / 1000000"
    using py_round_multiple by blast
  have "\<bar>of_int k / 1000000 - x\<bar> \<le> 1 / 2000000"
    using py_round_near [of middle_up x] unfolding k .
  then have "(of_int k :: real) < of_int m + 1"
    using assms by linarith
  then have "k < m + 1" by linarith
  then have "k \<le> m" by simp
  then have "(of_int k :: real) \<le> of_int m" by simp
  then show ?thesis unfolding k by (simp add: divide_right_mono)
qed

lemma calculate_max_position_size_value:
  assumes "p \<noteq> 0" and "get_account_value cfg rm = Inr account_value"
  shows "calculate_max_position_size cfg rm symbol_name p
           = Inr (min (account_value * RISK_PER_TRADE cfg / p) (MAX_POSITION_SIZE cfg))"
  using assms by (simp add: calculate_max_position_size_def)

lemma BaseStrategy_calculate_position_size_value:
  assumes "p \<noteq> 0" and "BaseStrategy_get_account_balance cfg conn = Inr account_balance"
  shows "BaseStrategy_calculate_position_size middle_up cfg conn p trade_side
           = Inr (py_round middle_up
                    (min (account_balance * RISK_PER_TRADE cfg / p) (MAX_POSITION_SIZE cfg)) 6)"
  using assms by (simp add: BaseStrategy_calculate_position_size_def)

lemma IchimokuStrategy_calculate_position_size_value:
  assumes "p \<noteq> 0"
  shows "IchimokuStrategy_calculate_position_size middle_up cfg p trade_side
           = Inr (py_round middle_up
                    (min (10000 * RISK_PER_TRADE cfg / p) (MAX_POSITION_SIZE cfg)) 6)"
  using assms
  by (simp add: IchimokuStrategy_calculate_position_size_def
      IchimokuStrategy_get_account_balance_def)

text \<open>
  What the rounding to 6 decimals returns of the smaller of a risk-based size and the
  configured maximum.
\<close>

lemma rounded_size:
  "\<exists>q. q = py_round middle_up (min risk_size cap) 6 \<and>
      (\<exists>k :: int. q = of_int k / 1000000) \<and>
      \<bar>q - min risk_size cap\<bar> \<le> 1 / 2000000 \<and>
      (\<forall>m :: int. cap = of_int m / 1000000 \<longrightarrow> q \<le> cap)"
proof -
  have "py_round middle_up (min risk_size cap) 6 \<le> cap"
    if "cap = of_int m / 1000000" for m :: int
  proof -
    have "min risk_size (of_int m / 1000000) \<le> of_int m / (1000000 :: real)" by simp
    from py_round_ceiling [OF this] show ?thesis unfolding that .
  qed
  then show ?thesis
    using py_round_multiple [of middle_up "min risk_size cap"]
      py_round_near [of middle_up "min risk_size cap"]
    by blast
qed

text \<open>
  With balance 10000, risk per trade 0.01 and price 60000 the size before rounding is
  0.0016666..., not a middle: the call returns 0.001667 whichever way the middles go.
\<close>

lemma position_size_at_60000:
  "BaseStrategy_calculate_position_size middle_up default_config None 60000 trade_side
     = Inr (1667 / 1000000)"
proof -
  have b: "BaseStrategy_get_account_balance default_config None = Inr 10000"
    by (simp add: BaseStrategy_get_account_balance_def)
  have v: "BaseStrategy_calculate_position_size middle_up default_config None 60000 trade_side
      = Inr (py_round middle_up (min (10000 * RISK_PER_TRADE default_config / 60000)
               (MAX_POSITION_SIZE default_config)) 6)"
    by (rule BaseStrategy_calculate_position_size_value [OF _ b]) simp
  have size: "min (10000 * RISK_PER_TRADE default_config / 60000)
      (MAX_POSITION_SIZE default_config) = 1 / 600"
    by (simp add: default_config_def)
  have "py_round middle_up (1 / 600) 6 = of_int 1667 / 1000000"
    by (rule py_round_value) simp
  then show ?thesis
    unfolding v size by simp
qed

text \<open>
  At price 64000 the size before rounding is the middle 0.0015625, and the result is
  0.001563 or 0.001562 with the side of the middle; what follows holds of both. The code
  returns 0.001563.
\<close>

lemma position_size_at_64000:
  "BaseStrategy_calculate_position_size (\<lambda>x. True) default_config None 64000 ''BUY''
     = Inr (1563 / 1000000) \<and>
   BaseStrategy_calculate_position_size (\<lambda>x. False) default_config None 64000 ''BUY''
     = Inr (1562 / 1000000)"
  by (simp add: BaseStrategy_calculate_position_size_def BaseStrategy_get_account_balance_def
      default_config_def py_round_def)

text \<open>
  C3, as the code has it. For every price above 0 the Risk Manager's
  \<open>calculate_max_position_size\<close> returns the smaller of
  \<open>account_value * risk_per_trade / price\<close> and the configured maximum, the account
  value being the one the Risk Manager reads (\<open>get_account_value\<close>): the result is at
  most both. Each strategy-side \<open>calculate_position_size\<close> takes the same minimum of the
  balance it reads itself, \<open>BaseStrategy\<close> of its own \<open>get_account_balance\<close> and
  \<open>IchimokuStrategy\<close> of its placeholder 10000 whatever the account holds, and returns
  it rounded to 6 decimals: a multiple of 0.000001 within 0.0000005 of that minimum, and
  at most the configured maximum when that is a multiple of 0.000001 too. When the value
  read is 10000, with risk per trade 0.01, price 50000 and configured maximum 0.01, each
  of the three returns exactly 0.002.
\<close>

theorem position_sizing_bounds:
  assumes "0 < p"
  shows "(\<forall>account_value. get_account_value cfg rm = Inr account_value \<longrightarrow>
            (\<exists>q. calculate_max_position_size cfg rm symbol_name p = Inr q \<and>
                 q = min (account_value * RISK_PER_TRADE cfg / p) (MAX_POSITION_SIZE cfg) \<and>
                 q \<le> MAX_POSITION_SIZE cfg \<and>
                 q \<le> account_value * RISK_PER_TRADE cfg / p)) \<and>
         (\<forall>account_balance. BaseStrategy_get_account_balance cfg conn = Inr account_balance \<longrightarrow>
            (\<exists>q. BaseStrategy_calculate_position_size middle_up cfg conn p trade_side = Inr q \<and>
                 q = py_round middle_up
                       (min (account_balance * RISK_PER_TRADE cfg / p) (MAX_POSITION_SIZE cfg)) 6 \<and>
                 (\<exists>k :: int. q = of_int k / 1000000) \<and>
                 \<bar>q - min (account_balance * RISK_PER_TRADE cfg / p) (MAX_POSITION_SIZE cfg)\<bar>
                   \<le> 1 / 2000000 \<and>
                 (\<forall>m :: int. MAX_POSITION_SIZE cfg = of_int m / 1000000 \<longrightarrow>
                    q \<le> MAX_POSITION_SIZE cfg))) \<and>
         (\<exists>q. IchimokuStrategy_calculate_position_size middle_up cfg p trade_side = Inr q \<and>
              q = py_round middle_up
                    (min (10000 * RISK_PER_TRADE cfg / p) (MAX_POSITION_SIZE cfg)) 6 \<and>
              (\<exists>k :: int. q = of_int k / 1000000) \<and>
              \<bar>q - min (10000 * RISK_PER_TRADE cfg / p) (MAX_POSITION_SIZE cfg)\<bar> \<le> 1 / 2000000 \<and>
              (\<forall>m :: int. MAX_POSITION_SIZE cfg = of_int m / 1000000 \<longrightarrow>
                 q \<le> MAX_POSITION_SIZE cfg)) \<and>
         (RISK_PER_TRADE cfg = 1 / 100 \<longrightarrow> MAX_POSITION_SIZE cfg = 1 / 100 \<longrightarrow> p = 50000 \<longrightarrow>
            (get_account_value cfg rm = Inr 10000 \<longrightarrow>
               calculate_max_position_size cfg rm symbol_name p = Inr (2 / 1000)) \<and>
            (BaseStrategy_get_account_balance cfg conn = Inr 10000 \<longrightarrow>
               BaseStrategy_calculate_position_size middle_up cfg conn p trade_side
                 = Inr (2 / 1000)) \<and>
            IchimokuStrategy_calculate_position_size middle_up cfg p trade_side = Inr (2 / 1000))"
proof -
  have p: "p \<noteq> 0" using assms by simp
  have rm: "\<forall>account_value. get_account_value cfg rm = Inr account_value \<longrightarrow>
            (\<exists>q. calculate_max_position_size cfg rm symbol_name p = Inr q \<and>
                 q = min (account_value * RISK_PER_TRADE cfg / p) (MAX_POSITION_SIZE cfg) \<and>
                 q \<le> MAX_POSITION_SIZE cfg \<and>
                 q \<le> account_value * RISK_PER_TRADE cfg / p)"
    by (simp add: calculate_max_position_size_value [OF p])
  have base: "\<forall>account_balance. BaseStrategy_get_account_balance cfg conn = Inr account_balance \<longrightarrow>
            (\<exists>q. BaseStrategy_calculate_position_size middle_up cfg conn p trade_side = Inr q \<and>
                 q = py_round middle_up
                       (min (account_balance * RISK_PER_TRADE cfg / p) (MAX_POSITION_SIZE cfg)) 6 \<and>
                 (\<exists>k :: int. q = of_int k / 1000000) \<and>
                 \<bar>q - min (account_balance * RISK_PER_TRADE cfg / p) (MAX_POSITION_SIZE cfg)\<bar>
                   \<le> 1 / 2000000 \<and>
                 (\<forall>m :: int. MAX_POSITION_SIZE cfg = of_int m / 1000000 \<longrightarrow>
                    q \<le> MAX_POSITION_SIZE cfg))"
  proof (intro allI impI)
    fix account_balance
    assume b: "BaseStrategy_get_account_balance cfg conn = Inr account_balance"
    show "\<exists>q. BaseStrategy_calculate_position_size middle_up cfg conn p trade_side = Inr q \<and>
                 q = py_round middle_up
                       (min (account_balance * RISK_PER_TRADE cfg / p) (MAX_POSITION_SIZE cfg)) 6 \<and>
                 (\<exists>k :: int. q = of_int k / 1000000) \<and>
                 \<bar>q - min (account_balance * RISK_PER_TRADE cfg / p) (MAX_POSITION_SIZE cfg)\<bar>
                   \<le> 1 / 2000000 \<and>
                 (\<forall>m :: int. MAX_POSITION_SIZE cfg = of_int m / 1000000 \<longrightarrow>
                    q \<le> MAX_POSITION_SIZE cfg)"
      unfolding BaseStrategy_calculate_position_size_value [OF p b]
      using rounded_size [of middle_up "account_balance * RISK_PER_TRADE cfg / p"
          "MAX_POSITION_SIZE cfg"]
      by blast
  qed
  have ichi: "\<exists>q. IchimokuStrategy_calculate_position_size middle_up cfg p trade_side = Inr q \<and>
              q = py_round middle_up
                    (min (10000 * RISK_PER_TRADE cfg / p) (MAX_POSITION_SIZE cfg)) 6 \<and>
              (\<exists>k :: int. q = of_int k / 1000000) \<and>
              \<bar>q - min (10000 * RISK_PER_TRADE cfg / p) (MAX_POSITION_SIZE cfg)\<bar> \<le> 1 / 2000000 \<and>
              (\<forall>m :: int. MAX_POSITION_SIZE cfg = of_int m / 1000000 \<longrightarrow>
                 q \<le> MAX_POSITION_SIZE cfg)"
    unfolding IchimokuStrategy_calculate_position_size_value [OF p]
    using rounded_size [of middle_up "10000 * RISK_PER_TRADE cfg / p" "MAX_POSITION_SIZE cfg"]
    by blast
  have scen: "RISK_PER_TRADE cfg = 1 / 100 \<longrightarrow> MAX_POSITION_SIZE cfg = 1 / 100 \<longrightarrow> p = 50000 \<longrightarrow>
            (get_account_value cfg rm = Inr 10000 \<longrightarrow>
               calculate_max_position_size cfg rm symbol_name p = Inr (2 / 1000)) \<and>
            (BaseStrategy_get_account_balance cfg conn = Inr 10000 \<longrightarrow>
               BaseStrategy_calculate_position_size middle_up cfg conn p trade_side
                 = Inr (2 / 1000)) \<and>
            IchimokuStrategy_calculate_position_size middle_up cfg p trade_side = Inr (2 / 1000)"
  proof (intro impI)
    assume risk: "RISK_PER_TRADE cfg = 1 / 100" and m: "MAX_POSITION_SIZE cfg = 1 / 100"
      and fifty: "p = 50000"
    have size: "min (10000 * RISK_PER_TRADE cfg / p) (MAX_POSITION_SIZE cfg) = 2 / 1000"
      unfolding risk m fifty by simp
    have "py_round middle_up (2 / 1000) 6 = of_int 2000 / 1000000"
      by (rule py_round_value) simp
    then have rounded: "py_round middle_up (2 / 1000) 6 = 2 / 1000" by simp
    have "calculate_max_position_size cfg rm symbol_name p = Inr (2 / 1000)"
      if "get_account_value cfg rm = Inr 10000"
      unfolding calculate_max_position_size_value [OF p that] size ..
    moreover have "BaseStrategy_calculate_position_size middle_up cfg conn p trade_side
        = Inr (2 / 1000)"
      if "BaseStrategy_get_account_balance cfg conn = Inr 10000"
      unfolding BaseStrategy_calculate_position_size_value [OF p that] size rounded ..
    moreover have "IchimokuStrategy_calculate_position_size middle_up cfg p trade_side
        = Inr (2 / 1000)"
      unfolding IchimokuStrategy_calculate_position_size_value [OF p] size rounded ..
    ultimately show "(get_account_value cfg rm = Inr 10000 \<longrightarrow>
               calculate_max_position_size cfg rm symbol_name p = Inr (2 / 1000)) \<and>
            (BaseStrategy_get_account_balance cfg conn = Inr 10000 \<longrightarrow>
               BaseStrategy_calculate_position_size middle_up cfg conn p trade_side
                 = Inr (2 / 1000)) \<and>
            IchimokuStrategy_calculate_position_size middle_up cfg p trade_side = Inr (2 / 1000)"
      by blast
  qed
  show ?thesis
    using rm base ichi scen by blast
qed

theorem position_sizing_scenario:
  "(0 :: real) < 50000 \<and>
   get_account_value default_config refreshed_usdt_only = Inr 10000 \<and>
   BaseStrategy_get_account_balance default_config None = Inr 10000 \<and>
   calculate_max_position_size default_config refreshed_usdt_only ''BTCUSDT'' 50000
     = Inr (2 / 1000) \<and>
   BaseStrategy_calculate_position_size (\<lambda>x. True) default_config None 50000 ''BUY''
     = Inr (2 / 1000) \<and>
   IchimokuStrategy_calculate_position_size (\<lambda>x. True) default_config 50000 ''BUY''
     = Inr (2 / 1000)"
proof -
  have a: "get_account_value default_config refreshed_usdt_only = Inr 10000"
    by (simp add: get_account_value_def refreshed_usdt_only_def default_config_def
        quote_currency_def)
  have b: "BaseStrategy_get_account_balance default_config None = Inr 10000"
    by (simp add: BaseStrategy_get_account_balance_def)
  have c: "RISK_PER_TRADE default_config = 1 / 100" "MAX_POSITION_SIZE default_config = 1 / 100"
    by (simp_all add: default_config_def)
  have pos: "(0 :: real) < 50000" by simp
  have fifty: "(50000 :: real) = 50000" ..
  show ?thesis
    using position_sizing_bounds [OF pos, where middle_up = "\<lambda>x. True"
        and cfg = default_config and rm = refreshed_usdt_only and symbol_name = "''BTCUSDT''"
        and conn = None and trade_side = "''BUY''"] a b c pos fifty
    by blast
qed

theorem position_size_rounds_above_risk_bound:
  "BaseStrategy_calculate_position_size (\<lambda>x. True) default_config None 60000 ''BUY''
     = Inr (1667 / 1000000) \<and>
   BaseStrategy_calculate_position_size (\<lambda>x. False) default_config None 60000 ''BUY''
     = Inr (1667 / 1000000) \<and>
   BaseStrategy_get_account_balance default_config None = Inr 10000 \<and>
   \<not> ((1667 / 1000000 :: real) \<le> 10000 * RISK_PER_TRADE default_config / 60000)"
  by (simp add: BaseStrategy_calculate_position_size_def BaseStrategy_get_account_balance_def
      default_config_def py_round_def)


section \<open>The strategy manager\<close>

lemma collect_signals_eq:
  assumes "list_all (raises_Exception_only loaded data) enabled"
  shows "collect_signals loaded enabled data acc
           = Inr (acc @ concat (map (contribution loaded data) enabled))"
  using assms
  by (induction enabled arbitrary: acc)
    (auto simp: contribution_def raises_Exception_only_def split: option.splits sum.splits)

lemma contribution_raises: "raises loaded data n \<Longrightarrow> contribution loaded data n = []"
  by (auto simp: raises_def contribution_def split: option.splits sum.splits)

lemma concat_contribution_filter:
  "concat (map (contribution loaded data) (filter (\<lambda>n. \<not> raises loaded data n) enabled))
     = concat (map (contribution loaded data) enabled)"
  by (induction enabled) (auto simp: contribution_raises)

lemma list_all_filter_keep: "list_all P xs \<Longrightarrow> list_all P (filter Q xs)"
  by (induction xs) auto

lemma max_by_split:
  "\<exists>pre post. best # xs = pre @ max_by f best xs # post \<and>
      (\<forall>x \<in> set pre. f x < f (max_by f best xs)) \<and>
      (\<forall>x \<in> set post. f x \<le> f (max_by f best xs))"
proof (induction xs arbitrary: best)
  case Nil
  have "[best] = [] @ max_by f best [] # []" by simp
  then show ?case by fastforce
next
  case (Cons x xs)
  show ?case
  proof (cases "f x > f best")
    case True
    define m where "m = max_by f x xs"
    have step: "max_by f best (x # xs) = m" using True by (simp add: m_def)
    from Cons.IH [of x] obtain pre post where
      s: "x # xs = pre @ m # post"
      and lo: "\<forall>y \<in> set pre. f y < f m"
      and hi: "\<forall>y \<in> set post. f y \<le> f m" unfolding m_def by blast
    have "f x \<le> f m"
      using s lo hi by (cases pre) auto
    then have b: "f best < f m" using True by simp
    have "best # x # xs = (best # pre) @ m # post" using s by simp
    moreover have "\<forall>y \<in> set (best # pre). f y < f m" using lo b by simp
    ultimately show ?thesis unfolding step using hi by blast
  next
    case False
    define m where "m = max_by f best xs"
    have step: "max_by f best (x # xs) = m" using False by (simp add: m_def)
    from Cons.IH [of best] obtain pre post where
      s: "best # xs = pre @ m # post"
      and lo: "\<forall>y \<in> set pre. f y < f m"
      and hi: "\<forall>y \<in> set post. f y \<le> f m" unfolding m_def by blast
    show ?thesis
    proof (cases pre)
      case Nil
      then have b: "m = best" and p: "post = xs" using s by simp_all
      have "best # x # xs = [] @ m # (x # xs)" using b by simp
      moreover have "\<forall>y \<in> set (x # xs). f y \<le> f m" using hi p b False by auto
      ultimately show ?thesis unfolding step by fastforce
    next
      case (Cons a pre')
      then have a: "a = best" and xs: "xs = pre' @ m # post" using s by simp_all
      have "f best < f m" using lo Cons a by simp
      then have fx: "f x < f m" using False by simp
      have "best # x # xs = (best # x # pre') @ m # post" using xs by simp
      moreover have "\<forall>y \<in> set (best # x # pre'). f y < f m" using lo Cons a fx by simp
      ultimately show ?thesis unfolding step using hi by blast
    qed
  qed
qed


lemma mset_sort_by_confidence: "mset (sort_by_confidence xs) = mset xs"
  by (simp add: sort_by_confidence_def split: list.splits)

text \<open>
  C5. When enabled strategies raise exceptions, instances of \<open>Exception\<close> as the
  \<open>except\<close> clause of the loop names them, \<open>generate_signals\<close> of the strategy
  manager still returns: the list its loop gathers is the concatenation, in enabled
  order, of the signals of the other enabled strategies; the returned list holds exactly
  those signals, in the confidence order that lines 96 to 98 of the same function give
  every returned list; and it is the list returned with the raising strategies struck
  from the enabled list. A raising strategy adds nothing and its exception does not
  leave the call.
\<close>

theorem generate_signals_isolates_failures:
  assumes "list_all (raises_Exception_only (strategies sm) data) (enabled_strategies sm)"
  shows "collect_signals (strategies sm) (enabled_strategies sm) data []
           = Inr (concat (map (contribution (strategies sm) data)
                   (filter (\<lambda>n. \<not> raises (strategies sm) data n) (enabled_strategies sm)))) \<and>
         StrategyManager_generate_signals sm data
           = Inr (sort_by_confidence (concat (map (contribution (strategies sm) data)
                   (filter (\<lambda>n. \<not> raises (strategies sm) data n) (enabled_strategies sm))))) \<and>
         StrategyManager_generate_signals
             (sm\<lparr>enabled_strategies :=
                   filter (\<lambda>n. \<not> raises (strategies sm) data n) (enabled_strategies sm)\<rparr>) data
           = StrategyManager_generate_signals sm data \<and>
         (\<exists>result. StrategyManager_generate_signals sm data = Inr result \<and>
            mset result = mset (concat (map (contribution (strategies sm) data)
                   (filter (\<lambda>n. \<not> raises (strategies sm) data n) (enabled_strategies sm)))))"
proof -
  let ?others = "filter (\<lambda>n. \<not> raises (strategies sm) data n) (enabled_strategies sm)"
  have c: "collect_signals (strategies sm) (enabled_strategies sm) data []
      = Inr (concat (map (contribution (strategies sm) data) ?others))"
    using collect_signals_eq [OF assms, of "[]"] by (simp add: concat_contribution_filter)
  have "list_all (raises_Exception_only (strategies sm) data) ?others"
    using assms by (rule list_all_filter_keep)
  from collect_signals_eq [OF this, of "[]"]
  have c': "collect_signals (strategies sm) ?others data []
      = Inr (concat (map (contribution (strategies sm) data) ?others))"
    by simp
  show ?thesis
    using c c' by (simp add: StrategyManager_generate_signals_def mset_sort_by_confidence)
qed

lemma three_strategies_run:
  "StrategyManager_generate_signals three_strategies empty_frame
     = Inr [scored ''SELL'' (9 / 10), scored ''BUY'' (1 / 10)]"
  by (simp add: StrategyManager_generate_signals_def three_strategies_def sort_by_confidence_def
      scored_def confidence_or_zero_def buy_signal_def)

lemma three_strategies_contributions:
  "concat (map (contribution (strategies three_strategies) empty_frame)
     (filter (\<lambda>n. \<not> raises (strategies three_strategies) empty_frame n)
        (enabled_strategies three_strategies)))
     = [scored ''BUY'' (1 / 10), scored ''SELL'' (9 / 10)]"
  by (simp add: three_strategies_def contribution_def raises_def)

theorem generate_signals_isolates_failures_three:
  "list_all (raises_Exception_only (strategies three_strategies) empty_frame)
     (enabled_strategies three_strategies) \<and>
   raises (strategies three_strategies) empty_frame ''gap'' \<and>
   StrategyManager_generate_signals three_strategies empty_frame
     = Inr (sort_by_confidence [scored ''BUY'' (1 / 10), scored ''SELL'' (9 / 10)]) \<and>
   StrategyManager_generate_signals three_strategies empty_frame
     = Inr [scored ''SELL'' (9 / 10), scored ''BUY'' (1 / 10)]"
proof -
  have a: "list_all (raises_Exception_only (strategies three_strategies) empty_frame)
     (enabled_strategies three_strategies)"
    by (simp add: three_strategies_def raises_Exception_only_def)
  have b: "raises (strategies three_strategies) empty_frame ''gap''"
    by (simp add: three_strategies_def raises_def)
  show ?thesis
    using generate_signals_isolates_failures [OF a] a b three_strategies_run
    unfolding three_strategies_contributions by simp
qed

text \<open>
  Where the first gathered signal carries no confidence, or none was gathered, the
  returned list is the concatenation as gathered.
\<close>

lemma generate_signals_unscored_concatenation:
  assumes "list_all (raises_Exception_only (strategies sm) data) (enabled_strategies sm)"
    and "concat (map (contribution (strategies sm) data) (enabled_strategies sm)) = []
      \<or> confidence (hd (concat (map (contribution (strategies sm) data) (enabled_strategies sm))))
          = None"
  shows "StrategyManager_generate_signals sm data
           = Inr (concat (map (contribution (strategies sm) data)
                   (filter (\<lambda>n. \<not> raises (strategies sm) data n) (enabled_strategies sm))))"
proof -
  let ?all = "concat (map (contribution (strategies sm) data) (enabled_strategies sm))"
  have unscored: "sort_by_confidence xs = xs" if "xs = [] \<or> confidence (hd xs) = None"
    for xs :: "signal list"
    using that by (cases xs) (simp_all add: sort_by_confidence_def)
  have "sort_by_confidence ?all = ?all"
    using assms(2) by (rule unscored)
  then show ?thesis
    using collect_signals_eq [OF assms(1), of "[]"]
    by (simp add: StrategyManager_generate_signals_def concat_contribution_filter)
qed


lemma sorted_desc_sort_key:
  fixes f :: "'a \<Rightarrow> real"
  shows "sorted_wrt (\<lambda>a b. f a \<ge> f b) (sort_key (\<lambda>x. - f x) xs)"
proof -
  have "sorted (map (\<lambda>x. - f x) (sort_key (\<lambda>x. - f x) xs))"
    by (rule sorted_sort_key)
  then show ?thesis
    by (simp add: sorted_map) 
qed

text \<open>
  C7, as the code has it. When the first signal gathered carries a confidence score, the
  returned list is the gathered list sorted stably by descending confidence, a missing
  score counting as 0; in particular, when every signal carries a score the returned
  list is in descending order of confidence. When no signal was gathered or the first
  one carries no score, the returned list is the gathered list in generation order.
\<close>

theorem generate_signals_confidence_order:
  assumes "StrategyManager_generate_signals sm data = Inr result"
  shows "\<exists>all_signals.
           collect_signals (strategies sm) (enabled_strategies sm) data [] = Inr all_signals \<and>
           mset result = mset all_signals \<and>
           (all_signals \<noteq> [] \<and> confidence (hd all_signals) \<noteq> None \<longrightarrow>
              result = sort_key (\<lambda>x. - confidence_or_zero x) all_signals \<and>
              sorted_wrt (\<lambda>a b. confidence_or_zero a \<ge> confidence_or_zero b) result \<and>
              (\<forall>k. filter (\<lambda>x. confidence_or_zero x = k) result
                     = filter (\<lambda>x. confidence_or_zero x = k) all_signals)) \<and>
           (list_all (\<lambda>x. confidence x \<noteq> None) all_signals \<longrightarrow>
              sorted_wrt (\<lambda>a b. the (confidence a) \<ge> the (confidence b)) result) \<and>
           (all_signals = [] \<or> confidence (hd all_signals) = None \<longrightarrow> result = all_signals)"
proof -
  from assms obtain all_signals where
    c: "collect_signals (strategies sm) (enabled_strategies sm) data [] = Inr all_signals"
    and r: "result = sort_by_confidence all_signals"
    by (auto simp: StrategyManager_generate_signals_def split: sum.splits)
  have m: "mset result = mset all_signals"
    unfolding r by (rule mset_sort_by_confidence)
  have first: "result = sort_key (\<lambda>x. - confidence_or_zero x) all_signals \<and>
      sorted_wrt (\<lambda>a b. confidence_or_zero a \<ge> confidence_or_zero b) result \<and>
      (\<forall>k. filter (\<lambda>x. confidence_or_zero x = k) result
             = filter (\<lambda>x. confidence_or_zero x = k) all_signals)"
    if "all_signals \<noteq> []" "confidence (hd all_signals) \<noteq> None"
  proof -
    have e: "result = sort_key (\<lambda>x. - confidence_or_zero x) all_signals"
      using that unfolding r by (cases all_signals) (auto simp: sort_by_confidence_def)
    have st: "filter (\<lambda>x. confidence_or_zero x = k) result
             = filter (\<lambda>x. confidence_or_zero x = k) all_signals" for k
      using sort_key_stable [of "\<lambda>x. - confidence_or_zero x" "- k" all_signals]
      unfolding e by simp
    show ?thesis
      using e st sorted_desc_sort_key [of confidence_or_zero all_signals] by simp
  qed
  have unsorted: "result = all_signals"
    if "all_signals = [] \<or> confidence (hd all_signals) = None"
    using that unfolding r by (cases all_signals) (auto simp: sort_by_confidence_def)
  have every: "sorted_wrt (\<lambda>a b. the (confidence a) \<ge> the (confidence b)) result"
    if every: "list_all (\<lambda>x. confidence x \<noteq> None) all_signals"
  proof (cases "all_signals = []")
    case True
    then show ?thesis using unsorted by simp
  next
    case False
    then have "confidence (hd all_signals) \<noteq> None"
      using every by (cases all_signals) auto
    from first [OF False this]
    have s: "sorted_wrt (\<lambda>a b. confidence_or_zero a \<ge> confidence_or_zero b) result" by blast
    have "set result = set all_signals"
      using m by (rule mset_eq_setD)
    then have "\<forall>x \<in> set result. confidence x \<noteq> None"
      using every by (simp add: list_all_iff)
    then have k: "confidence_or_zero x = the (confidence x)" if "x \<in> set result" for x
      using that by (auto simp: confidence_or_zero_def)
    show ?thesis
      by (rule sorted_wrt_mono_rel [OF _ s]) (simp add: k)
  qed
  show ?thesis
  proof (intro exI conjI)
    show "collect_signals (strategies sm) (enabled_strategies sm) data [] = Inr all_signals"
      by (rule c)
    show "mset result = mset all_signals"
      by (rule m)
    show "all_signals \<noteq> [] \<and> confidence (hd all_signals) \<noteq> None \<longrightarrow>
              result = sort_key (\<lambda>x. - confidence_or_zero x) all_signals \<and>
              sorted_wrt (\<lambda>a b. confidence_or_zero a \<ge> confidence_or_zero b) result \<and>
              (\<forall>k. filter (\<lambda>x. confidence_or_zero x = k) result
                     = filter (\<lambda>x. confidence_or_zero x = k) all_signals)"
      using first by (intro impI) (elim conjE)
    show "list_all (\<lambda>x. confidence x \<noteq> None) all_signals \<longrightarrow>
              sorted_wrt (\<lambda>a b. the (confidence a) \<ge> the (confidence b)) result"
      using every by (intro impI)
    show "all_signals = [] \<or> confidence (hd all_signals) = None \<longrightarrow> result = all_signals"
      using unsorted by (intro impI)
  qed
qed

lemma mixed_strategy_run:
  "StrategyManager_generate_signals mixed_strategy empty_frame
     = Inr [scored ''BUY'' (9 / 10), scored ''BUY'' (1 / 10), unscored ''BUY'' 1]"
  by (simp add: StrategyManager_generate_signals_def mixed_strategy_def sort_by_confidence_def
      scored_def unscored_def confidence_or_zero_def buy_signal_def)


theorem generate_signals_confidence_order_scored:
  "StrategyManager_generate_signals three_strategies empty_frame
     = Inr [scored ''SELL'' (9 / 10), scored ''BUY'' (1 / 10)] \<and>
   collect_signals (strategies three_strategies) (enabled_strategies three_strategies)
       empty_frame []
     = Inr [scored ''BUY'' (1 / 10), scored ''SELL'' (9 / 10)] \<and>
   list_all (\<lambda>x. confidence x \<noteq> None) [scored ''BUY'' (1 / 10), scored ''SELL'' (9 / 10)] \<and>
   sorted_wrt (\<lambda>a b. the (confidence a) \<ge> the (confidence b))
     [scored ''SELL'' (9 / 10), scored ''BUY'' (1 / 10)]"
proof -
  have c: "collect_signals (strategies three_strategies) (enabled_strategies three_strategies)
       empty_frame []
     = Inr [scored ''BUY'' (1 / 10), scored ''SELL'' (9 / 10)]"
    by (simp add: three_strategies_def)
  have a: "list_all (\<lambda>x. confidence x \<noteq> None)
      [scored ''BUY'' (1 / 10), scored ''SELL'' (9 / 10)]"
    by (simp add: scored_def del: not_None_eq)
  from generate_signals_confidence_order [OF three_strategies_run]
  obtain all_signals where
    cc: "collect_signals (strategies three_strategies) (enabled_strategies three_strategies)
       empty_frame [] = Inr all_signals"
    and every: "list_all (\<lambda>x. confidence x \<noteq> None) all_signals \<longrightarrow>
       sorted_wrt (\<lambda>a b. the (confidence a) \<ge> the (confidence b))
         [scored ''SELL'' (9 / 10), scored ''BUY'' (1 / 10)]"
    by blast
  have "all_signals = [scored ''BUY'' (1 / 10), scored ''SELL'' (9 / 10)]"
    using c cc by simp
  then have "sorted_wrt (\<lambda>a b. the (confidence a) \<ge> the (confidence b))
     [scored ''SELL'' (9 / 10), scored ''BUY'' (1 / 10)]"
    using every a by blast
  then show ?thesis
    using three_strategies_run c a by blast
qed

theorem generate_signals_reorders_unscored:
  "collect_signals (strategies mixed_strategy) (enabled_strategies mixed_strategy) empty_frame []
     = Inr [scored ''BUY'' (1 / 10), unscored ''BUY'' 1, scored ''BUY'' (9 / 10)] \<and>
   confidence (unscored ''BUY'' 1) = None \<and>
   StrategyManager_generate_signals mixed_strategy empty_frame
     = Inr [scored ''BUY'' (9 / 10), scored ''BUY'' (1 / 10), unscored ''BUY'' 1] \<and>
   [scored ''BUY'' (9 / 10), scored ''BUY'' (1 / 10), unscored ''BUY'' 1]
     \<noteq> [scored ''BUY'' (1 / 10), unscored ''BUY'' 1, scored ''BUY'' (9 / 10)]"
  by (simp add: mixed_strategy_run)
    (simp add: mixed_strategy_def scored_def unscored_def buy_signal_def)


lemma disjoint_filters_length:
  assumes "\<And>x. P x \<Longrightarrow> \<not> Q x"
  shows "length (filter P xs) + length (filter Q xs) \<le> length xs"
  using assms by (induction xs) auto

lemma side_signals_length:
  "length (side_signals ''BUY'' signals) + length (side_signals ''SELL'' signals)
     \<le> length signals"
  unfolding side_signals_def by (rule disjoint_filters_length) simp

lemma not_both_sides:
  assumes "side_fraction ''BUY'' signals > 6 / 10"
  shows "\<not> side_fraction ''SELL'' signals > 6 / 10"
proof
  assume s: "side_fraction ''SELL'' signals > 6 / 10"
  have n: "signals \<noteq> []" using assms by (auto simp: side_fraction_def)
  then have pos: "0 < real (length signals)" by simp
  have b: "real (length (side_signals ''BUY'' signals)) > 6 / 10 * real (length signals)"
    using assms pos by (simp add: side_fraction_def field_simps)
  have c: "real (length (side_signals ''SELL'' signals)) > 6 / 10 * real (length signals)"
    using s pos by (simp add: side_fraction_def field_simps)
  have "real (length (side_signals ''BUY'' signals)) + real (length (side_signals ''SELL'' signals))
      \<le> real (length signals)"
    using side_signals_length [of signals] by linarith
  then show False using b c pos by linarith
qed

lemma combine_signals_eq:
  "combine_signals signals =
     (if signals = [] then []
      else (if side_fraction ''BUY'' signals > 6 / 10 then best_signal (side_signals ''BUY'' signals) else []) @
           (if side_fraction ''SELL'' signals > 6 / 10 then best_signal (side_signals ''SELL'' signals) else []))"
  by (simp add: combine_signals_def side_fraction_def side_signals_def Let_def)

lemma best_signal_split:
  assumes "xs \<noteq> []"
  obtains b pre post where "best_signal xs = [b]" and "xs = pre @ b # post"
    and "confidence (hd xs) = None \<longrightarrow> pre = []"
    and "confidence (hd xs) \<noteq> None \<longrightarrow>
           (\<forall>x \<in> set pre. confidence_or_zero x < confidence_or_zero b) \<and>
           (\<forall>x \<in> set post. confidence_or_zero x \<le> confidence_or_zero b)"
proof -
  from assms obtain first rest where xs: "xs = first # rest" by (cases xs) auto
  show thesis
  proof (cases "confidence first")
    case None
    have b: "best_signal xs = [first]" using None by (simp add: best_signal_def xs)
    have s: "xs = [] @ first # rest" by (simp add: xs)
    have h: "confidence (hd xs) = None" using None by (simp add: xs)
    show thesis
      using b s by (rule that) (use h in simp_all)
  next
    case (Some c)
    define m where "m = max_by confidence_or_zero first rest"
    have b: "best_signal xs = [m]"
      using Some by (simp add: best_signal_def xs m_def)
    from max_by_split [of first rest confidence_or_zero] obtain pre post where
      s: "xs = pre @ m # post"
      and lo: "\<forall>x \<in> set pre. confidence_or_zero x < confidence_or_zero m"
      and hi: "\<forall>x \<in> set post. confidence_or_zero x \<le> confidence_or_zero m"
      unfolding m_def xs by blast
    have h: "confidence (hd xs) \<noteq> None" using Some by (simp add: xs)
    show thesis
      using b s by (rule that) (use lo hi h in auto)
  qed
qed

text \<open>
  C6, as the code has it. \<open>combine_signals\<close> emits exactly one Buy signal when the
  share of Buy signals exceeds 0.6, else exactly one Sell signal when the share of Sell
  signals exceeds 0.6, else nothing; on the empty list it emits nothing. The signal
  emitted for a side is one of that side's signals: the side's first signal when that
  first signal carries no confidence score, and otherwise the first of the side's
  signals of greatest confidence, a missing score counting as 0. For two Buy signals
  and one Sell signal without confidence scores it returns exactly the first Buy.
\<close>

theorem combine_signals_majority:
  "combine_signals signals =
     (if signals \<noteq> [] \<and> side_fraction ''BUY'' signals > 6 / 10
      then best_signal (side_signals ''BUY'' signals)
      else if signals \<noteq> [] \<and> side_fraction ''SELL'' signals > 6 / 10
      then best_signal (side_signals ''SELL'' signals)
      else []) \<and>
   (side_signals sd signals \<noteq> [] \<longrightarrow>
      (\<exists>b pre post.
         best_signal (side_signals sd signals) = [b] \<and>
         side_signals sd signals = pre @ b # post \<and> side b = sd \<and>
         (confidence (hd (side_signals sd signals)) = None \<longrightarrow> pre = []) \<and>
         (confidence (hd (side_signals sd signals)) \<noteq> None \<longrightarrow>
            (\<forall>x \<in> set pre. confidence_or_zero x < confidence_or_zero b) \<and>
            (\<forall>x \<in> set post. confidence_or_zero x \<le> confidence_or_zero b)))) \<and>
   (side_fraction sd signals > 6 / 10 \<longrightarrow> side_signals sd signals \<noteq> []) \<and>
   combine_signals [] = [] \<and>
   (length signals = 3 \<longrightarrow> length (side_signals ''BUY'' signals) = 2 \<longrightarrow>
      length (side_signals ''SELL'' signals) = 1 \<longrightarrow>
      (\<forall>x \<in> set signals. confidence x = None) \<longrightarrow>
      combine_signals signals = [hd (side_signals ''BUY'' signals)])"
proof -
  have main: "combine_signals signals =
     (if signals \<noteq> [] \<and> side_fraction ''BUY'' signals > 6 / 10
      then best_signal (side_signals ''BUY'' signals)
      else if signals \<noteq> [] \<and> side_fraction ''SELL'' signals > 6 / 10
      then best_signal (side_signals ''SELL'' signals)
      else [])"
    using not_both_sides [of signals] by (simp add: combine_signals_eq)
  have pick: "\<exists>b pre post.
         best_signal (side_signals sd signals) = [b] \<and>
         side_signals sd signals = pre @ b # post \<and> side b = sd \<and>
         (confidence (hd (side_signals sd signals)) = None \<longrightarrow> pre = []) \<and>
         (confidence (hd (side_signals sd signals)) \<noteq> None \<longrightarrow>
            (\<forall>x \<in> set pre. confidence_or_zero x < confidence_or_zero b) \<and>
            (\<forall>x \<in> set post. confidence_or_zero x \<le> confidence_or_zero b))"
    if ne: "side_signals sd signals \<noteq> []"
  proof -
    obtain b pre post where
      b: "best_signal (side_signals sd signals) = [b]"
      and s: "side_signals sd signals = pre @ b # post"
      and r: "confidence (hd (side_signals sd signals)) = None \<longrightarrow> pre = []"
        "confidence (hd (side_signals sd signals)) \<noteq> None \<longrightarrow>
            (\<forall>x \<in> set pre. confidence_or_zero x < confidence_or_zero b) \<and>
            (\<forall>x \<in> set post. confidence_or_zero x \<le> confidence_or_zero b)"
      by (rule best_signal_split [OF ne])
    have "b \<in> set (side_signals sd signals)" unfolding s by simp
    then have sb: "side b = sd" by (simp add: side_signals_def)
    show ?thesis
      by (rule exI [of _ b], rule exI [of _ pre], rule exI [of _ post], intro conjI)
        (fact b s sb r)+
  qed
  have nonempty: "side_signals sd signals \<noteq> []" if "side_fraction sd signals > 6 / 10"
    using that by (auto simp: side_fraction_def)
  have empty: "combine_signals [] = []"
    by (simp add: combine_signals_def)
  have scenario: "combine_signals signals = [hd (side_signals ''BUY'' signals)]"
    if l: "length signals = 3" and b: "length (side_signals ''BUY'' signals) = 2"
      and s: "length (side_signals ''SELL'' signals) = 1"
      and c: "\<forall>x \<in> set signals. confidence x = None"
  proof -
    have ne: "signals \<noteq> []" using l by auto
    have fb: "side_fraction ''BUY'' signals > 6 / 10"
      by (simp add: side_fraction_def l b)
    obtain first rest where fr: "side_signals ''BUY'' signals = first # rest"
      using b by (cases "side_signals ''BUY'' signals") auto
    have "first \<in> set signals"
      using fr by (metis filter_is_subset list.set_intros(1) side_signals_def subsetD)
    then have "confidence first = None" using c by simp
    then have "best_signal (side_signals ''BUY'' signals) = [first]"
      by (simp add: best_signal_def fr)
    then show ?thesis
      using main ne fb fr by simp
  qed
  show ?thesis
    using main pick nonempty empty scenario by blast
qed

theorem combine_signals_two_buys_one_sell:
  "length two_buys_one_sell = 3 \<and>
   length (side_signals ''BUY'' two_buys_one_sell) = 2 \<and>
   length (side_signals ''SELL'' two_buys_one_sell) = 1 \<and>
   list_all (\<lambda>x. confidence x = None) two_buys_one_sell \<and>
   combine_signals two_buys_one_sell = [unscored ''BUY'' 1]"
proof -
  have l: "length two_buys_one_sell = 3" by (simp add: two_buys_one_sell_def)
  have bs: "side_signals ''BUY'' two_buys_one_sell = [unscored ''BUY'' 1, unscored ''BUY'' 3]"
    by (simp add: two_buys_one_sell_def side_signals_def unscored_def)
  have s: "length (side_signals ''SELL'' two_buys_one_sell) = 1"
    by (simp add: two_buys_one_sell_def side_signals_def unscored_def)
  have c: "\<forall>x \<in> set two_buys_one_sell. confidence x = None"
    by (simp add: two_buys_one_sell_def unscored_def buy_signal_def)
  have b: "length (side_signals ''BUY'' two_buys_one_sell) = 2" by (simp add: bs)
  from combine_signals_majority [of two_buys_one_sell] l b s c
  have "combine_signals two_buys_one_sell = [hd (side_signals ''BUY'' two_buys_one_sell)]"
    by blast
  then show ?thesis
    using l b s c by (simp add: bs list_all_iff)
qed

theorem combine_signals_first_buy_not_best:
  "combine_signals [unscored ''BUY'' 1, scored ''BUY'' (9 / 10)] = [unscored ''BUY'' 1] \<and>
   side (unscored ''BUY'' 1) = ''BUY'' \<and> confidence (unscored ''BUY'' 1) = None \<and>
   side (scored ''BUY'' (9 / 10)) = ''BUY'' \<and>
   confidence (scored ''BUY'' (9 / 10)) = Some (9 / 10) \<and>
   unscored ''BUY'' 1 \<noteq> scored ''BUY'' (9 / 10)"
  by (simp add: combine_signals_def best_signal_def unscored_def scored_def buy_signal_def)


section \<open>Ichimoku on short frames\<close>

lemma len_set_column: "len (set_column df name values) = len df"
  by (simp add: len_def set_column_def)

lemma get_column_set_column_other:
  "name \<noteq> name' \<Longrightarrow> get_column (set_column df name' values) name = get_column df name"
  by (simp add: get_column_def set_column_def update_conv')

lemma get_column_set_column_same:
  "get_column (set_column df name values) name = Inr values"
  by (simp add: get_column_def set_column_def update_conv')

lemma calculate_ichimoku_len:
  "calculate_ichimoku cfg df = Inr df' \<Longrightarrow> len df' = len df"
  by (auto simp: calculate_ichimoku_def raise_or_def Let_def len_set_column split: sum.splits)

lemma calculate_ichimoku_returns:
  assumes "get_column df ''high'' = Inr h" and "get_column df ''low'' = Inr l"
    and "get_column df ''close'' = Inr c"
  shows "\<exists>df'. calculate_ichimoku cfg df = Inr df'"
  using assms
  by (simp add: calculate_ichimoku_def raise_or_def Let_def get_column_set_column_other)

text \<open>
  On a frame that has its \<open>high\<close>, \<open>low\<close> and \<open>close\<close> columns and fewer rows than
  \<open>senkou_span_b_period + displacement\<close>, the strategy returns no signal.
\<close>

lemma generate_signals_short_frame:
  assumes "get_column df ''high'' = Inr h" and "get_column df ''low'' = Inr l"
    and "get_column df ''close'' = Inr c"
    and "len df < senkou_span_b_period cfg + displacement cfg"
  shows "IchimokuStrategy_generate_signals middle_up cfg now df = Inr []"
proof -
  from calculate_ichimoku_returns [OF assms(1-3)] obtain df' where
    d: "calculate_ichimoku cfg df = Inr df'" by blast
  have "len df' = len df" using d by (rule calculate_ichimoku_len)
  then show ?thesis
    using assms(4) d by (simp add: IchimokuStrategy_generate_signals_def raise_or_def)
qed

lemma generate_signals_one_candle:
  "IchimokuStrategy_generate_signals middle_up default_config now one_candle = Inr []"
  by (rule generate_signals_short_frame [of _ "[Some 50500]" "[Some 49500]" "[Some 50200]"])
    (simp_all add: get_column_def one_candle_def len_def default_config_def)

text \<open>
  C4 fails on the frame without rows and columns, \<open>pd.DataFrame()\<close>, which is what
  \<open>get_latest_data\<close> hands to the strategies when the fetch fails and nothing is
  cached: it has fewer rows than \<open>senkou_span_b_period + displacement\<close>, and
  \<open>generate_signals\<close> raises \<open>KeyError\<close> for the column \<open>high\<close>, in \<open>calculate_ichimoku\<close>,
  before it reaches its check of the length.
\<close>

theorem generate_signals_empty_frame_raises:
  "IchimokuStrategy_generate_signals middle_up cfg now empty_frame = Inl (KeyError ''high'') \<and>
   len empty_frame = 0 \<and>
   len empty_frame < senkou_span_b_period default_config + displacement default_config"
  by (simp add: IchimokuStrategy_generate_signals_def calculate_ichimoku_def raise_or_def
      get_column_def empty_frame_def len_def default_config_def)

section \<open>The indicator pipeline and the caller's frame\<close>

lemma assign_all_keeps_other_columns:
  "name \<notin> set (map fst assignments) \<Longrightarrow>
     get_column (fst (assign_all assignments df)) name = get_column df name"
proof (induction assignments arbitrary: df)
  case Nil
  then show ?case by simp
next
  case (Cons a assignments)
  obtain n expression where a: "a = (n, expression)" by (cases a)
  show ?case
  proof (cases "expression df")
    case (Inl e)
    then show ?thesis by (simp add: a)
  next
    case (Inr column)
    have "get_column (fst (assign_all assignments (set_column df n column))) name
        = get_column (set_column df n column) name"
      using Cons.prems by (intro Cons.IH) simp
    then show ?thesis
      using Inr Cons.prems by (simp add: a get_column_set_column_other)
  qed
qed

lemma assign_all_step:
  "expression df = Inr column \<Longrightarrow>
     assign_all ((name, expression) # rest) df = assign_all rest (set_column df name column)"
  by simp

text \<open>
  Whatever the rest of the call does, the frame handed to \<open>calculate_indicators\<close>, when
  it is not empty and has a \<open>close\<close> column, holds the column \<open>sma_20\<close> afterwards.
\<close>

lemma calculate_indicators_assigns_sma_20:
  assumes "\<not> empty df" and "get_column df ''close'' = Inr close"
  shows "get_column (fst (calculate_indicators ta cfg df)) ''sma_20''
           = Inr (sma_indicator ta close 20)"
proof -
  let ?rest = "[(''sma_50'', of_close (\<lambda>close. sma_indicator ta close 50)),
                 (''sma_200'', of_close (\<lambda>close. sma_indicator ta close 200)),
                 (''ema_12'', of_close (\<lambda>close. ema_indicator ta close 12)),
                 (''ema_26'', of_close (\<lambda>close. ema_indicator ta close 26)),
                 (''macd_line'', of_close (macd ta)),
                 (''macd_signal'', of_close (macd_signal ta)),
                 (''macd_histogram'', of_close (macd_diff ta)),
                 (''rsi'', of_close (rsi ta)),
                 (''bb_upper'', of_close (bollinger_hband ta)),
                 (''bb_middle'', of_close (bollinger_mavg ta)),
                 (''bb_lower'', of_close (bollinger_lband ta)),
                 (''obv'', of_close_volume (on_balance_volume ta))]"
  let ?df1 = "set_column df ''sma_20'' (sma_indicator ta close 20)"
  have "get_column (fst (assign_all ?rest ?df1)) ''sma_20'' = get_column ?df1 ''sma_20''"
    by (rule assign_all_keeps_other_columns) simp
  then have "get_column (fst (assign_all ?rest ?df1)) ''sma_20''
      = Inr (sma_indicator ta close 20)"
    by (simp add: get_column_set_column_same)
  moreover have "assign_all ((''sma_20'', of_close (\<lambda>close. sma_indicator ta close 20)) # ?rest) df
      = assign_all ?rest ?df1"
    by (rule assign_all_step) (simp add: of_close_def raise_or_def assms(2))
  moreover have "fst (calculate_indicators ta cfg df)
      = fst (assign_all ((''sma_20'', of_close (\<lambda>close. sma_indicator ta close 20)) # ?rest) df)"
    using assms(1)
    by (simp add: calculate_indicators_def del: assign_all.simps split: prod.splits option.splits)
  ultimately show ?thesis by simp
qed

text \<open>
  \<open>calculate_vwap\<close> on its own: on \<open>pd.DataFrame()\<close> the lookup of \<open>open_time\<close>
  raises, and on the frame of one candle the column \<open>vwap\<close> holds the typical price.
\<close>

lemma calculate_vwap_empty_frame:
  "calculate_vwap empty_frame = Inl (KeyError ''open_time'')"
  by (simp add: calculate_vwap_def reset_index_column_def empty_frame_def)

lemma calculate_vwap_one_candle:
  "map_sum id columns (calculate_vwap one_candle)
     = Inr (columns one_candle @ [(''vwap'', [Some (150200 / 3)])])"
  by (simp add: calculate_vwap_def reset_index_column_def one_candle_def set_column_def len_def
      day_of_def raise_or_def get_column_def group_vwap_def cell2_def cell_divide_def)

text \<open>
  C8 fails on every frame that is not empty and has a \<open>close\<close> and a \<open>volume\<close> column.
  On the frame of one candle, whatever the indicator functions compute, the call leaves
  the caller's frame with thirteen more columns, \<open>sma_20\<close> to \<open>obv\<close>: the input series
  is altered.
\<close>

theorem calculate_indicators_alters_input:
  "map fst (columns one_candle) = [''open'', ''high'', ''low'', ''close'', ''volume''] \<and>
   map fst (columns (fst (calculate_indicators ta cfg one_candle)))
     = [''open'', ''high'', ''low'', ''close'', ''volume'', ''sma_20'', ''sma_50'', ''sma_200'',
        ''ema_12'', ''ema_26'', ''macd_line'', ''macd_signal'', ''macd_histogram'', ''rsi'',
        ''bb_upper'', ''bb_middle'', ''bb_lower'', ''obv''] \<and>
   fst (calculate_indicators ta cfg one_candle) \<noteq> one_candle"
proof -
  have a: "map fst (columns one_candle) = [''open'', ''high'', ''low'', ''close'', ''volume'']"
    by (simp add: one_candle_def)
  have b: "map fst (columns (fst (calculate_indicators ta cfg one_candle)))
     = [''open'', ''high'', ''low'', ''close'', ''volume'', ''sma_20'', ''sma_50'', ''sma_200'',
        ''ema_12'', ''ema_26'', ''macd_line'', ''macd_signal'', ''macd_histogram'', ''rsi'',
        ''bb_upper'', ''bb_middle'', ''bb_lower'', ''obv'']"
    by (simp add: calculate_indicators_def empty_def one_candle_def of_close_def
        of_close_volume_def raise_or_def get_column_def set_column_def split: prod.splits)
  have "fst (calculate_indicators ta cfg one_candle) \<noteq> one_candle"
  proof
    assume "fst (calculate_indicators ta cfg one_candle) = one_candle"
    then have "map fst (columns (fst (calculate_indicators ta cfg one_candle)))
        = map fst (columns one_candle)" by simp
    then show False unfolding a b by simp
  qed
  then show ?thesis using a b by simp
qed

end
